theory Spec2Isabelle
  imports Complex_Main "HOL-Library.Sublist"
begin

section \<open>JavaScript values used by the image planner\<close>

text \<open>
  The planner of \<^verbatim>\<open>gatsby-plugin-sharp/src/index.js\<close> computes with JavaScript numbers.
  The sizing options are integers (the planner's own messages call them "positive
  ints"), and so are the pixel dimensions of a source image: they are \<open>int\<close> here.
  The breakpoints are whatever numbers the caller lists: they are \<open>rat\<close>. The candidate
  sizes are the breakpoints and the quotients and products of the option by 4, 2, 1.5
  and 2: they are \<open>rat\<close>, which is what a double holds exactly for every integer below
  \<open>2 ^ 51\<close>. Where the planner divides and multiplies arbitrary numbers (the ratio of
  two dimensions and its product with a size), each result is rounded to a double, by
  \<open>to_double\<close> below. An option that is not there is \<open>undefined\<close> in the source and
  \<open>None\<close> here; arithmetic on \<open>undefined\<close> gives \<open>NaN\<close>, which is \<open>None\<close> as well,
  since the planner only ever compares such a value, and every comparison with
  \<open>undefined\<close> or \<open>NaN\<close> is false.
\<close>

type_synonym jsnum = "rat option"

definition js_lt :: "jsnum \<Rightarrow> jsnum \<Rightarrow> bool" where
  "js_lt a b = (case (a, b) of (Some x, Some y) \<Rightarrow> x < y | _ \<Rightarrow> False)"


definition js_num :: "int option \<Rightarrow> jsnum" where
  "js_num v = map_option of_int v"

text \<open>A number is truthy when it is there and is not zero; a string when it is not empty.\<close>

definition truthy :: "int option \<Rightarrow> bool" where
  "truthy v = (case v of None \<Rightarrow> False | Some n \<Rightarrow> n \<noteq> 0)"

definition truthy_string :: "string option \<Rightarrow> bool" where
  "truthy_string v = (case v of None \<Rightarrow> False | Some s \<Rightarrow> s \<noteq> [])"

text \<open>\<^verbatim>\<open>Math.round\<close> rounds to the nearest integer, a half upwards.\<close>

definition Math_round :: "rat \<Rightarrow> int" where
  "Math_round x = \<lfloor>x + 1 / 2\<rfloor>"

text \<open>
  The double nearest to a rational number: 53 significant bits, a tie going to the even
  one. \<open>binary_exponent x\<close> is the \<open>e\<close> with \<open>2 ^ e \<le> x < 2 ^ (e + 1)\<close>, for a
  positive \<open>x\<close>. This is the rounding of every quotient and product of doubles whose
  magnitude lies in the normal range, between \<open>2 ^ - 1022\<close> and \<open>2 ^ 1024\<close>, as all
  those of sizes and dimensions of images do.
\<close>

fun bit_length :: "nat \<Rightarrow> nat" where
  "bit_length n = (if n = 0 then 0 else Suc (bit_length (n div 2)))"

declare bit_length.simps [simp del]

definition pow2 :: "int \<Rightarrow> rat" where
  "pow2 e = (if 0 \<le> e then 2 ^ nat e else 1 / 2 ^ nat (- e))"

definition binary_exponent :: "rat \<Rightarrow> int" where
  "binary_exponent x =
     (if 1 \<le> x then int (bit_length (nat \<lfloor>x\<rfloor>)) - 1
      else - int (bit_length (nat (\<lceil>1 / x\<rceil> - 1))))"

definition round_half_even :: "rat \<Rightarrow> int" where
  "round_half_even x =
     (let f = \<lfloor>x\<rfloor>; d = x - of_int f
      in if d < 1 / 2 then f else if 1 / 2 < d then f + 1 else if even f then f else f + 1)"

definition to_double :: "rat \<Rightarrow> rat" where
  "to_double x =
     (if x = 0 then 0
      else (let e = binary_exponent \<bar>x\<bar> - 52
            in of_int (round_half_even (x / pow2 e)) * pow2 e))"

text \<open>\<^verbatim>\<open>Math.min\<close> of a number and an intrinsic dimension.\<close>

definition Math_min :: "int \<Rightarrow> int \<Rightarrow> int" where
  "Math_min a b = (if a \<le> b then a else b)"

text \<open>
  \<^verbatim>\<open>Array.prototype.findIndex\<close>: the index of the first element that satisfies the
  predicate, \<open>-1\<close> when there is none.
\<close>

fun findIndex :: "('a \<Rightarrow> bool) \<Rightarrow> 'a list \<Rightarrow> int" where
  "findIndex P [] = - 1"
| "findIndex P (x # xs) =
     (if P x then 0 else (let i = findIndex P xs in if i = - 1 then - 1 else i + 1))"

text \<open>Reading \<^verbatim>\<open>xs[i]\<close>: \<open>undefined\<close> outside the array.\<close>

definition js_index :: "'a list \<Rightarrow> int \<Rightarrow> 'a option" where
  "js_index xs i = (if 0 \<le> i \<and> i < int (length xs) then Some (xs ! nat i) else None)"

text \<open>A template string prints an integer in decimal.\<close>

fun show_nat :: "nat \<Rightarrow> string" where
  "show_nat n =
     (if n < 10 then [''0123456789'' ! n]
      else show_nat (n div 10) @ [''0123456789'' ! (n mod 10)])"

declare show_nat.simps [simp del]

definition show_int :: "int \<Rightarrow> string" where
  "show_int i = (if i < 0 then CHR ''-'' # show_nat (nat (- i)) else show_nat (nat i))"

text \<open>\<^verbatim>\<open>Array.prototype.join\<close>.\<close>

fun join :: "string \<Rightarrow> string list \<Rightarrow> string" where
  "join sep [] = []"
| "join sep [x] = x"
| "join sep (x # y # ys) = x @ sep @ join sep (y # ys)"

section \<open>Options, source metadata, variants\<close>

text \<open>\<^verbatim>\<open>sharp.fit\<close>.\<close>

datatype fit_mode = Cover | Contain | Fill | Inside | Outside

text \<open>
  The resolved options (the result of \<^verbatim>\<open>healOptions\<close>, which is not among these
  sources), with the fields the planner reads. \<open>tracedSVG\<close> tells whether the arguments
  of the tracing are there.
\<close>

record options =
  width :: "int option"
  height :: "int option"
  maxWidth :: "int option"
  maxHeight :: "int option"
  fit :: fit_mode
  srcSetBreakpoints :: "rat list option"
  sizes :: "string option"
  pathPrefix :: "string option"
  base64 :: bool
  base64Width :: "int option"
  generateTracedSVG :: bool
  tracedSVG :: bool

text \<open>What \<^verbatim>\<open>sharp(file).metadata()\<close> reports of the source image.\<close>

record metadata =
  md_width :: int
  md_height :: int

text \<open>
  The arguments of one variant (\<^verbatim>\<open>arrrgs\<close>). A dimension that is \<open>None\<close> is
  \<open>undefined\<close>, or is no finite number (the \<open>NaN\<close> or infinity of a ratio whose
  numerator is \<open>undefined\<close> or whose denominator is zero).
\<close>

record transform_args =
  arg_width :: "int option"
  arg_height :: "int option"
  arg_pathPrefix :: "string option"

text \<open>
  What \<^verbatim>\<open>prepareQueue\<close> derives for one variant. It is computed by helpers that are
  not among these sources (\<^verbatim>\<open>createArgsDigest\<close>, \<^verbatim>\<open>getDimensionsAndAspectRatio\<close>), so
  the planner below takes \<^verbatim>\<open>prepareQueue\<close> as a parameter, and
  \<^verbatim>\<open>createTransformObject\<close> likewise. Both are functions: \<^verbatim>\<open>prepareQueue\<close> is called for a
  file the planner has just read, and what it derives is arithmetic on that file's
  dimensions. The aspect ratio it reports is a quotient of two dimensions: a number,
  \<open>NaN\<close> when a dimension is missing, or an infinity when the height is 0.
\<close>

datatype js_quotient = Finite rat | NaN | Infinite

record image =
  src :: string
  img_width :: int
  img_height :: int
  aspectRatio :: js_quotient

datatype option_name = Width | Height | MaxWidth | MaxHeight

definition option_at :: "options \<Rightarrow> option_name \<Rightarrow> int option" where
  "option_at opts k =
     (case k of Width \<Rightarrow> width opts | Height \<Rightarrow> height opts
      | MaxWidth \<Rightarrow> maxWidth opts | MaxHeight \<Rightarrow> maxHeight opts)"

text \<open>Reading \<^verbatim>\<open>arrrgs[attr]\<close> for the two dimensions.\<close>

definition arg_at :: "transform_args \<Rightarrow> option_name \<Rightarrow> int option" where
  "arg_at a k = (case k of Width \<Rightarrow> arg_width a | Height \<Rightarrow> arg_height a | _ \<Rightarrow> None)"

text \<open>
  What the planner throws: the two errors of its own checks, the \<^verbatim>\<open>TypeError\<close> of
  reading a property of \<open>undefined\<close>, and the rejection of a collaborator it awaits.
\<close>

datatype error =
    NotPositive option_name "int option"
  | InvalidBreakpoint rat
  | TypeError
  | Rejected string

section \<open>The fluid planner\<close>

definition fluid_fixedDimension :: "options \<Rightarrow> option_name" where
  "fluid_fixedDimension opts = (if maxWidth opts = None then MaxHeight else MaxWidth)"

definition dimensionAttr :: "options \<Rightarrow> option_name" where
  "dimensionAttr opts = (if fluid_fixedDimension opts = MaxWidth then Width else Height)"

text \<open>The local \<^verbatim>\<open>maxWidth\<close> and \<^verbatim>\<open>maxHeight\<close>: the option capped at the source.\<close>

definition capped_maxWidth :: "options \<Rightarrow> metadata \<Rightarrow> int option" where
  "capped_maxWidth opts md =
     (if truthy (maxWidth opts) then Some (Math_min (the (maxWidth opts)) (md_width md))
      else None)"

definition capped_maxHeight :: "options \<Rightarrow> metadata \<Rightarrow> int option" where
  "capped_maxHeight opts md =
     (if truthy (maxHeight opts) then Some (Math_min (the (maxHeight opts)) (md_height md))
      else None)"

text \<open>The four standard breakpoints after the option itself.\<close>

definition standard_sizes :: "int option \<Rightarrow> jsnum list" where
  "standard_sizes b =
     [js_num b,
      map_option (\<lambda>n. of_int n / 4) b,
      map_option (\<lambda>n. of_int n / 2) b,
      map_option (\<lambda>n. of_int n * (3 / 2)) b,
      map_option (\<lambda>n. of_int n * 2) b]"

text \<open>The \<^verbatim>\<open>forEach\<close> over the custom breakpoints; a throw ends it.\<close>

fun push_breakpoints :: "rat list \<Rightarrow> jsnum list \<Rightarrow> error + jsnum list" where
  "push_breakpoints [] fluidSizes = Inr fluidSizes"
| "push_breakpoints (breakpoint # rest) fluidSizes =
     (if breakpoint < 1 then Inl (InvalidBreakpoint breakpoint)
      else if Some breakpoint \<in> set fluidSizes then push_breakpoints rest fluidSizes
      else push_breakpoints rest (fluidSizes @ [Some breakpoint]))"

text \<open>
  The check of the chosen option and the list \<^verbatim>\<open>fluidSizes\<close>. \<^verbatim>\<open>undefined < 1\<close> is
  false, so an option that is not there passes the check.
\<close>

definition fluidSizes :: "options \<Rightarrow> error + jsnum list" where
  "fluidSizes opts =
     (let fixedDimension = fluid_fixedDimension opts;
          b = option_at opts fixedDimension
      in if js_lt (js_num b) (Some 1) then Inl (NotPositive fixedDimension b)
         else if srcSetBreakpoints opts = None \<or> srcSetBreakpoints opts = Some []
         then Inr (standard_sizes b)
         else push_breakpoints (the (srcSetBreakpoints opts)) [js_num b])"

text \<open>The source's size on the fixed axis.\<close>

definition intrinsic :: "options \<Rightarrow> metadata \<Rightarrow> int" where
  "intrinsic opts md =
     (if fluid_fixedDimension opts = MaxWidth then md_width md else md_height md)"

text \<open>The filter \<^verbatim>\<open>size < limit\<close>: it keeps numbers only.\<close>

fun sizes_below :: "rat \<Rightarrow> jsnum list \<Rightarrow> rat list" where
  "sizes_below limit [] = []"
| "sizes_below limit (s # ss) =
     (if js_lt s (Some limit) then the s # sizes_below limit ss else sizes_below limit ss)"

text \<open>\<^verbatim>\<open>filteredSizes\<close> after the push of the original size and \<^verbatim>\<open>_.sortBy\<close>.\<close>

definition filteredSizes :: "options \<Rightarrow> metadata \<Rightarrow> error + rat list" where
  "filteredSizes opts md =
     (case fluidSizes opts of
        Inl e \<Rightarrow> Inl e
      | Inr fs \<Rightarrow>
          Inr (sort (sizes_below (of_int (intrinsic opts md)) fs @ [of_int (intrinsic opts md)])))"

definition imageWithDensityOneIndex :: "options \<Rightarrow> metadata \<Rightarrow> rat list \<Rightarrow> int" where
  "imageWithDensityOneIndex opts md fsizes =
     findIndex
       (\<lambda>sz. Some sz =
          js_num (if fluid_fixedDimension opts = MaxWidth then capped_maxWidth opts md
                  else capped_maxHeight opts md))
       fsizes"

text \<open>
  The quotient of two optional numbers, a double: no finite number when one is missing
  or the divisor is zero. \<open>js_scaled\<close> is \<^verbatim>\<open>Math.round(size * ratio)\<close>, the product a
  double as well.
\<close>

definition js_ratio :: "int option \<Rightarrow> int option \<Rightarrow> rat option" where
  "js_ratio a b =
     (case (a, b) of
        (Some x, Some y) \<Rightarrow> if y = 0 then None else Some (to_double (of_int x / of_int y))
      | _ \<Rightarrow> None)"

definition js_scaled :: "rat \<Rightarrow> rat option \<Rightarrow> int option" where
  "js_scaled sz ratio = map_option (\<lambda>r. Math_round (to_double (sz * r))) ratio"

text \<open>One element of \<^verbatim>\<open>transforms\<close>: the arguments of the variant of a size.\<close>

definition fluid_transform ::
    "(options \<Rightarrow> transform_args) \<Rightarrow> options \<Rightarrow> metadata \<Rightarrow> rat \<Rightarrow> transform_args" where
  "fluid_transform createTransformObject opts md sz =
     (let a0 = createTransformObject opts;
          byWidth = (fluid_fixedDimension opts = MaxWidth);
          a1 = (if byWidth
                then (if truthy (arg_height a0) then a0\<lparr>arg_height := None\<rparr> else a0)
                else (if truthy (arg_width a0) then a0\<lparr>arg_width := None\<rparr> else a0));
          a2 = (if byWidth then a1\<lparr>arg_width := Some (Math_round sz)\<rparr>
                else a1\<lparr>arg_height := Some (Math_round sz)\<rparr>);
          a3 = (if truthy_string (pathPrefix opts)
                then a2\<lparr>arg_pathPrefix := pathPrefix opts\<rparr> else a2)
      in if maxWidth opts \<noteq> None \<and> maxHeight opts \<noteq> None
         then (if fit opts = Inside
               then a3\<lparr>arg_height :=
                      js_scaled sz (js_ratio (capped_maxHeight opts md) (capped_maxWidth opts md))\<rparr>
               else a3\<lparr>arg_height :=
                      js_scaled sz (js_ratio (maxHeight opts) (maxWidth opts))\<rparr>)
         else a3)"

definition transforms ::
    "(options \<Rightarrow> transform_args) \<Rightarrow> options \<Rightarrow> metadata \<Rightarrow> rat list \<Rightarrow> transform_args list"
  where
  "transforms createTransformObject opts md fsizes =
     map (fluid_transform createTransformObject opts md) fsizes"

text \<open>
  \<^verbatim>\<open>batchQueueImageResizing\<close> returns one image per transform, in order; the job it
  hands to the host is not modelled.
\<close>

definition batchQueueImageResizing ::
    "(transform_args \<Rightarrow> image) \<Rightarrow> transform_args list \<Rightarrow> image list" where
  "batchQueueImageResizing prepareQueue ts = map prepareQueue ts"

text \<open>
  The placeholder of \<^verbatim>\<open>options.base64\<close>. Its height is
  \<^verbatim>\<open>Math.max(1, Math.round(base64Width / images[0].aspectRatio))\<close>: 1 when the ratio
  is infinite, and no finite number (\<open>None\<close>) when the width or the ratio is no number,
  or the ratio is zero under a width that is not negative. The other arguments are
  copied from options this record does not carry.
  \<^verbatim>\<open>generateBase64\<close> does the rendering with the image library: it is a parameter,
  which may reject (\<open>Inl\<close>) or give \<^verbatim>\<open>null\<close> (\<open>Inr None\<close>) or a placeholder's
  \<^verbatim>\<open>src\<close>. The cache that \<^verbatim>\<open>base64\<close> puts in front of it is not modelled.
\<close>

record base64_args =
  b64_width :: "int option"
  b64_height :: "int option"

definition base64Height :: "int option \<Rightarrow> js_quotient \<Rightarrow> int option" where
  "base64Height w ratio =
     (case (w, ratio) of
        (Some n, Finite a) \<Rightarrow>
          if a = 0 then (if n < 0 then Some 1 else None)
          else Some (max 1 (Math_round (to_double (of_int n / a))))
      | (Some n, Infinite) \<Rightarrow> Some 1
      | _ \<Rightarrow> None)"

definition base64Image ::
    "(base64_args \<Rightarrow> string + string option) \<Rightarrow> options \<Rightarrow> image list \<Rightarrow>
     error + string option" where
  "base64Image generateBase64 opts images =
     (if base64 opts
      then (case js_index images 0 of
              None \<Rightarrow> Inl TypeError
            | Some first \<Rightarrow>
                (case generateBase64
                        \<lparr>b64_width = base64Width opts,
                         b64_height = base64Height (base64Width opts) (aspectRatio first)\<rparr> of
                   Inl reason \<Rightarrow> Inl (Rejected reason)
                 | Inr found \<Rightarrow> Inr found))
      else Inr None)"

text \<open>\<^verbatim>\<open>getTracedSVG\<close>; the tracing itself, \<^verbatim>\<open>traceSVG\<close>, is a parameter as well.\<close>

definition getTracedSVG ::
    "(options \<Rightarrow> string + string option) \<Rightarrow> options \<Rightarrow> error + string option" where
  "getTracedSVG traceSVG opts =
     (if generateTracedSVG opts \<and> tracedSVG opts
      then (case traceSVG opts of
              Inl reason \<Rightarrow> Inl (Rejected reason)
            | Inr svg \<Rightarrow> Inr svg)
      else Inr None)"

record fluid_result =
  fl_base64 :: "string option"
  fl_aspectRatio :: js_quotient
  fl_srcSet :: string
  fl_sizes :: string
  fl_presentationWidth :: int
  fl_presentationHeight :: int
  fl_tracedSVG :: "string option"

definition default_sizes :: "int \<Rightarrow> string" where
  "default_sizes presentationWidth =
     ''(max-width: '' @ show_int presentationWidth @ ''px) 100vw, '' @
     show_int presentationWidth @ ''px''"

text \<open>
  \<^verbatim>\<open>fluid\<close>: \<open>Inr None\<close> is the \<^verbatim>\<open>null\<close> it returns when the metadata cannot be
  read, \<open>Inl\<close> an error it throws. Reading \<^verbatim>\<open>.width\<close> of an image that is not there
  is a \<^verbatim>\<open>TypeError\<close>. The \<^verbatim>\<open>src\<close> fields of the result and the warning about
  \<^verbatim>\<open>sizeByPixelDensity\<close> are left out.
\<close>

definition fluid ::
    "(options \<Rightarrow> transform_args) \<Rightarrow> (transform_args \<Rightarrow> image) \<Rightarrow>
     (base64_args \<Rightarrow> string + string option) \<Rightarrow> (options \<Rightarrow> string + string option) \<Rightarrow>
     options \<Rightarrow> metadata option \<Rightarrow> error + fluid_result option" where
  "fluid createTransformObject prepareQueue generateBase64 traceSVG opts metadata =
     (case metadata of
        None \<Rightarrow> Inr None
      | Some md \<Rightarrow>
          (case filteredSizes opts md of
             Inl e \<Rightarrow> Inl e
           | Inr fsizes \<Rightarrow>
               (let idx = imageWithDensityOneIndex opts md fsizes;
                    images = batchQueueImageResizing prepareQueue
                               (transforms createTransformObject opts md fsizes)
                in case base64Image generateBase64 opts images of
                     Inl e \<Rightarrow> Inl e
                   | Inr base64Src \<Rightarrow>
                       (case getTracedSVG traceSVG opts of
                          Inl e \<Rightarrow> Inl e
                        | Inr svg \<Rightarrow>
                            (case (js_index images 0, js_index images idx) of
                               (Some first, Some imageWithDensityOne) \<Rightarrow>
                                 Inr (Some \<lparr>
                                   fl_base64 = base64Src,
                                   fl_aspectRatio = aspectRatio first,
                                   fl_srcSet =
                                     join ('','' @ [CHR 0x0A])
                                       (map (\<lambda>image. src image @ '' '' @
                                                      show_int (img_width image) @ ''w'')
                                          images),
                                   fl_sizes =
                                     (if truthy_string (sizes opts) then the (sizes opts)
                                      else default_sizes (img_width imageWithDensityOne)),
                                   fl_presentationWidth = img_width imageWithDensityOne,
                                   fl_presentationHeight = img_height imageWithDensityOne,
                                   fl_tracedSVG = svg\<rparr>)
                             | _ \<Rightarrow> Inl TypeError)))))"

section \<open>The fixed planner\<close>

definition fixed_fixedDimension :: "options \<Rightarrow> option_name" where
  "fixed_fixedDimension opts = (if width opts = None then Height else Width)"







definition fixed_transform ::
    "(options \<Rightarrow> transform_args) \<Rightarrow> options \<Rightarrow> rat \<Rightarrow> transform_args" where
  "fixed_transform createTransformObject opts sz =
     (let a0 = createTransformObject opts;
          a1 = (if fixed_fixedDimension opts = Width
                then a0\<lparr>arg_width := Some (Math_round sz)\<rparr>
                else a0\<lparr>arg_height := Some (Math_round sz)\<rparr>);
          a2 = (if width opts \<noteq> None \<and> height opts \<noteq> None
                then a1\<lparr>arg_height := js_scaled sz (js_ratio (height opts) (width opts))\<rparr>
                else a1)
      in if truthy_string (pathPrefix opts) then a2\<lparr>arg_pathPrefix := pathPrefix opts\<rparr> else a2)"





section \<open>The directory provider\<close>

text \<open>
  The file system the provider of \<^verbatim>\<open>gatsby-recipes/src/providers/fs/directory.js\<close> works
  on: what is found at each absolute path, a path being the list of its names from the
  root. Every entry is taken to be visible to the process. \<^verbatim>\<open>path.join\<close> and the
  resolution of the joined name are a parameter \<open>join\<close> of the operations.
\<close>

type_synonym path = "string list"

datatype entry = File | Directory

type_synonym filesystem = "path \<Rightarrow> entry option"

datatype fs_error = ENOENT | EEXIST | ENOTDIR

record resource_input =
  in_id :: string
  in_path :: string

record resource =
  res_id :: string
  res_path :: string
  res_message :: string

definition makePath :: "(string \<Rightarrow> string \<Rightarrow> path) \<Rightarrow> string \<Rightarrow> string \<Rightarrow> path" where
  "makePath join_paths root_dir relativePath = join_paths root_dir relativePath"

text \<open>\<^verbatim>\<open>fs.accessSync(fullPath, F_OK)\<close> throws unless something is at the path.\<close>

definition accessSync :: "filesystem \<Rightarrow> path \<Rightarrow> fs_error + unit" where
  "accessSync fs fullPath = (case fs fullPath of None \<Rightarrow> Inl ENOENT | Some _ \<Rightarrow> Inr ())"

definition directoryExists :: "filesystem \<Rightarrow> path \<Rightarrow> bool" where
  "directoryExists fs fullPath =
     (case accessSync fs fullPath of Inr _ \<Rightarrow> True | Inl e \<Rightarrow> False)"

text \<open>
  \<^verbatim>\<open>fs.ensureDir\<close>: nothing to do for a directory that is there; otherwise the
  directory and its missing ancestors are made, unless a file is in the way.
\<close>

definition ensureDir :: "filesystem \<Rightarrow> path \<Rightarrow> fs_error + filesystem" where
  "ensureDir fs fullPath =
     (case fs fullPath of
        Some Directory \<Rightarrow> Inr fs
      | Some File \<Rightarrow> Inl EEXIST
      | None \<Rightarrow>
          if list_ex (\<lambda>q. fs q = Some File) (prefixes fullPath) then Inl ENOTDIR
          else Inr (\<lambda>q. if prefix q fullPath then Some Directory else fs q))"

definition message :: "string \<Rightarrow> string" where
  "message p = ''Created directory '' @ [CHR 0x22] @ p @ [CHR 0x22]"

definition read ::
    "(string \<Rightarrow> string \<Rightarrow> path) \<Rightarrow> filesystem \<Rightarrow> string \<Rightarrow> string \<Rightarrow> fs_error + resource option"
  where
  "read join_paths fs root_dir ident =
     (let fullPath = makePath join_paths root_dir ident
      in if \<not> directoryExists fs fullPath then Inr None
         else Inr (Some \<lparr>res_id = ident, res_path = ident, res_message = message ident\<rparr>))"

text \<open>\<^verbatim>\<open>create\<close> and \<^verbatim>\<open>update\<close> return the file system they leave and what \<^verbatim>\<open>read\<close> finds.\<close>

definition create ::
    "(string \<Rightarrow> string \<Rightarrow> path) \<Rightarrow> filesystem \<Rightarrow> string \<Rightarrow> resource_input \<Rightarrow>
     fs_error + filesystem \<times> resource option" where
  "create join_paths fs root_dir r =
     (let fullPath = makePath join_paths root_dir (in_path r)
      in case ensureDir fs fullPath of
           Inl e \<Rightarrow> Inl e
         | Inr fs' \<Rightarrow>
             (case read join_paths fs' root_dir (in_path r) of
                Inl e \<Rightarrow> Inl e
              | Inr found \<Rightarrow> Inr (fs', found)))"

definition update ::
    "(string \<Rightarrow> string \<Rightarrow> path) \<Rightarrow> filesystem \<Rightarrow> string \<Rightarrow> resource_input \<Rightarrow>
     fs_error + filesystem \<times> resource option" where
  "update join_paths fs root_dir r =
     (let fullPath = makePath join_paths root_dir (in_id r)
      in case ensureDir fs fullPath of
           Inl e \<Rightarrow> Inl e
         | Inr fs' \<Rightarrow>
             (case read join_paths fs' root_dir (in_id r) of
                Inl e \<Rightarrow> Inl e
              | Inr found \<Rightarrow> Inr (fs', found)))"

section \<open>Sample inputs\<close>

text \<open>
  Inputs for the examples below: options with nothing set, and stand-ins for the
  collaborators the planner is given. The first keeps the \<^verbatim>\<open>width\<close> and \<^verbatim>\<open>height\<close>
  options as the arguments of a variant, the second reports a variant's arguments as the
  dimensions of its image (with no aspect ratio for a width of 0), the third renders a
  placeholder unless its height is no number, the fourth always traces.
\<close>

definition no_options :: options where
  "no_options =
     \<lparr>width = None, height = None, maxWidth = None, maxHeight = None, fit = Cover,
      srcSetBreakpoints = None, sizes = None, pathPrefix = None, base64 = False,
      base64Width = None, generateTracedSVG = False, tracedSVG = False\<rparr>"

definition sample_createTransformObject :: "options \<Rightarrow> transform_args" where
  "sample_createTransformObject opts =
     \<lparr>arg_width = width opts, arg_height = height opts, arg_pathPrefix = None\<rparr>"

definition sample_prepareQueue :: "transform_args \<Rightarrow> image" where
  "sample_prepareQueue a =
     \<lparr>src = ''/static/'' @ (case arg_width a of None \<Rightarrow> ''auto'' | Some w \<Rightarrow> show_int w) @ ''.png'',
      img_width = (case arg_width a of None \<Rightarrow> 0 | Some w \<Rightarrow> w),
      img_height = (case arg_height a of None \<Rightarrow> 0 | Some h \<Rightarrow> h),
      aspectRatio = (if arg_width a = Some 0 then NaN else Finite (16 / 9))\<rparr>"

definition sample_generateBase64 :: "base64_args \<Rightarrow> string + string option" where
  "sample_generateBase64 a =
     (case b64_height a of
        None \<Rightarrow> Inl ''Expected positive integer for height''
      | Some h \<Rightarrow> Inr (Some (''data:image/png;base64,'' @ show_int h)))"

definition sample_traceSVG :: "options \<Rightarrow> string + string option" where
  "sample_traceSVG opts = Inr (Some ''data:image/svg+xml,traced'')"

text \<open>Joining a root and a relative name that needs no normalising.\<close>

definition sample_join :: "string \<Rightarrow> string \<Rightarrow> path" where
  "sample_join root_dir relativePath = [root_dir, relativePath]"

section \<open>Properties of the fluid size list\<close>

lemma set_sizes_below: "set (sizes_below l xs) = {x. Some x \<in> set xs \<and> x < l}"
  by (induction xs) (auto simp: js_lt_def split: option.splits)

lemma distinct_sizes_below: "distinct xs \<Longrightarrow> distinct (sizes_below l xs)"
  by (induction xs) (auto simp: set_sizes_below js_lt_def split: option.splits)

lemma distinct_standard_sizes: "0 < b \<Longrightarrow> distinct (standard_sizes (Some b))"
  by (simp add: standard_sizes_def js_num_def)

lemma fluidSizes_standard:
  assumes "option_at opts (fluid_fixedDimension opts) = Some b" and "1 \<le> b"
    and "srcSetBreakpoints opts = None \<or> srcSetBreakpoints opts = Some []"
  shows "fluidSizes opts = Inr (standard_sizes (Some b))"
  using assms by (auto simp: fluidSizes_def js_lt_def js_num_def Let_def)

lemma fluidSizes_custom:
  assumes "option_at opts (fluid_fixedDimension opts) = Some b" and "1 \<le> b"
    and "srcSetBreakpoints opts = Some bps" and "bps \<noteq> []"
  shows "fluidSizes opts = push_breakpoints bps [Some (of_int b)]"
  using assms by (auto simp: fluidSizes_def js_lt_def js_num_def Let_def)

lemma push_breakpoints_ok:
  "\<forall>bp\<in>set bps. 1 \<le> bp \<Longrightarrow>
   \<exists>fs. push_breakpoints bps acc = Inr fs \<and>
        set fs = set acc \<union> Some ` set bps \<and>
        (distinct acc \<longrightarrow> distinct fs) \<and> prefix acc fs"
proof (induction bps arbitrary: acc)
  case Nil
  then show ?case by simp
next
  case (Cons bp bps)
  then have ok: "\<forall>x\<in>set bps. 1 \<le> x" and bp: "\<not> bp < 1" by auto
  show ?case
  proof (cases "Some bp \<in> set acc")
    case True
    from Cons.IH [OF ok, of acc] True bp show ?thesis by auto
  next
    case False
    from Cons.IH [OF ok, of "acc @ [Some bp]"] obtain fs where
      fs: "push_breakpoints bps (acc @ [Some bp]) = Inr fs"
        "set fs = set (acc @ [Some bp]) \<union> Some ` set bps"
        "distinct (acc @ [Some bp]) \<longrightarrow> distinct fs"
        "prefix (acc @ [Some bp]) fs"
      by blast
    from fs(4) have "prefix acc fs" by (meson append_prefixD)
    with fs False bp show ?thesis by auto
  qed
qed

lemma push_breakpoints_bad:
  "bp \<in> set bps \<Longrightarrow> bp < 1 \<Longrightarrow>
   \<exists>bad. push_breakpoints bps acc = Inl (InvalidBreakpoint bad) \<and> bad \<in> set bps \<and> bad < 1"
  by (induction bps arbitrary: acc) auto

lemma findIndex_ge: "- 1 \<le> findIndex P xs"
  by (induction xs) (auto simp: Let_def)

lemma findIndex_found:
  "\<exists>x\<in>set xs. P x \<Longrightarrow>
   0 \<le> findIndex P xs \<and> findIndex P xs < int (length xs) \<and> P (xs ! nat (findIndex P xs))"
proof (induction xs)
  case Nil
  then show ?case by simp
next
  case (Cons x xs)
  show ?case
  proof (cases "P x")
    case True
    then show ?thesis by simp
  next
    case False
    with Cons.prems have "\<exists>y\<in>set xs. P y" by auto
    from Cons.IH [OF this] False show ?thesis
      by (auto simp: Let_def nat_add_distrib)
  qed
qed

lemma capped_fixed:
  assumes "option_at opts (fluid_fixedDimension opts) = Some b" and "1 \<le> b"
  shows "(if fluid_fixedDimension opts = MaxWidth then capped_maxWidth opts md
          else capped_maxHeight opts md) = Some (Math_min b (intrinsic opts md))"
  using assms
  by (auto simp: fluid_fixedDimension_def option_at_def capped_maxWidth_def
      capped_maxHeight_def truthy_def intrinsic_def split: if_splits)

lemma final_list_props:
  assumes "distinct fs"
  shows "distinct (sort (sizes_below l fs @ [l]))"
    and "sorted_wrt (<) (sort (sizes_below l fs @ [l]))"
    and "set (sort (sizes_below l fs @ [l])) = insert l {x. Some x \<in> set fs \<and> x < l}"
  using assms by (auto simp: strict_sorted_iff distinct_sizes_below set_sizes_below)

lemma capped_in_final:
  assumes "Some (of_int b) \<in> set fs"
  shows "of_int (Math_min b w) \<in> set (sort (sizes_below (of_int w) fs @ [of_int w]))"
  using assms by (auto simp: set_sizes_below Math_min_def)


lemma insort_snoc: "y \<le> w \<Longrightarrow> insort y (zs @ [w]) = insort y zs @ [w]"
  by (induction zs) auto

lemma foldr_insort_snoc:
  "\<forall>y\<in>set ys. y \<le> w \<Longrightarrow> foldr insort ys [w] = foldr insort ys [] @ [w]"
  by (induction ys) (auto simp: insort_snoc)

lemma sort_snoc_max: "\<forall>y\<in>set ys. y \<le> w \<Longrightarrow> sort (ys @ [w]) = sort ys @ [w]"
  by (simp add: sort_key_def foldr_insort_snoc)

lemma intrinsic_last:
  "last (sort (sizes_below l fs @ [l])) = l \<and> (\<forall>x\<in>set (sort (sizes_below l fs @ [l])). x \<le> l)"
proof -
  have "\<forall>y\<in>set (sizes_below l fs). y \<le> l" by (auto simp: set_sizes_below)
  then have "sort (sizes_below l fs @ [l]) = sort (sizes_below l fs) @ [l]"
    by (rule sort_snoc_max)
  then show ?thesis by (auto simp: set_sizes_below)
qed

lemma only_intrinsic:
  "sort (sizes_below l fs @ [l]) = [l] \<longleftrightarrow> (\<forall>x. Some x \<in> set fs \<longrightarrow> \<not> x < l)"
proof -
  have "sort (sizes_below l fs @ [l]) = [l] \<longleftrightarrow> sizes_below l fs = []"
  proof
    assume "sort (sizes_below l fs @ [l]) = [l]"
    then have "length (sort (sizes_below l fs @ [l])) = 1" by simp
    then show "sizes_below l fs = []" by simp
  next
    assume "sizes_below l fs = []"
    then show "sort (sizes_below l fs @ [l]) = [l]" by simp
  qed
  also have "\<dots> \<longleftrightarrow> set (sizes_below l fs) = {}" by simp
  also have "\<dots> \<longleftrightarrow> (\<forall>x. Some x \<in> set fs \<longrightarrow> \<not> x < l)"
    unfolding set_sizes_below by auto
  finally show ?thesis .
qed

lemma set_standard_sizes:
  "Some x \<in> set (standard_sizes (Some b)) \<longleftrightarrow>
   x = of_int b \<or> x = of_int b / 4 \<or> x = of_int b / 2 \<or> x = of_int b * (3 / 2) \<or> x = of_int b * 2"
  by (simp add: standard_sizes_def js_num_def)

lemma standard_none_below:
  assumes "1 \<le> b"
  shows "(\<forall>x. Some x \<in> set (standard_sizes (Some b)) \<longrightarrow> \<not> x < of_int w) \<longleftrightarrow> 4 * w \<le> b"
proof
  assume a: "\<forall>x. Some x \<in> set (standard_sizes (Some b)) \<longrightarrow> \<not> x < of_int w"
  have "Some (of_int b / 4) \<in> set (standard_sizes (Some b))"
    by (simp add: set_standard_sizes)
  with a have "\<not> (of_int b / 4 :: rat) < of_int w" by blast
  then have "(of_int (4 * w) :: rat) \<le> of_int b" by (simp add: field_simps)
  then show "4 * w \<le> b" by (simp only: of_int_le_iff)
next
  assume "4 * w \<le> b"
  then have "(of_int (4 * w) :: rat) \<le> of_int b" by (simp only: of_int_le_iff)
  then have q: "(of_int w :: rat) \<le> of_int b / 4" by (simp add: field_simps)
  have b: "(0::rat) < of_int b" using assms by simp
  show "\<forall>x. Some x \<in> set (standard_sizes (Some b)) \<longrightarrow> \<not> x < of_int w"
  proof (intro allI impI)
    fix x :: rat
    assume "Some x \<in> set (standard_sizes (Some b))"
    then have "of_int b / 4 \<le> x" using b unfolding set_standard_sizes by auto
    with q show "\<not> x < of_int w" by simp
  qed
qed


lemma valid_breakpoints_sizes:
  assumes base: "option_at opts (fluid_fixedDimension opts) = Some b" and pos: "1 \<le> b"
    and valid: "\<forall>bp\<in>set (case srcSetBreakpoints opts of None \<Rightarrow> [] | Some bps \<Rightarrow> bps). 1 \<le> bp"
  shows "\<exists>fs. fluidSizes opts = Inr fs \<and> distinct fs \<and> Some (of_int b) \<in> set fs \<and>
           (srcSetBreakpoints opts = None \<or> srcSetBreakpoints opts = Some []
              \<longrightarrow> fs = standard_sizes (Some b)) \<and>
           (\<forall>bps. srcSetBreakpoints opts = Some bps \<and> bps \<noteq> []
              \<longrightarrow> set fs = Some ` insert (of_int b) (set bps) \<and> hd fs = Some (of_int b))"
proof (cases "srcSetBreakpoints opts = None \<or> srcSetBreakpoints opts = Some []")
  case True
  have "fluidSizes opts = Inr (standard_sizes (Some b))"
    using base pos True by (rule fluidSizes_standard)
  moreover have "distinct (standard_sizes (Some b))"
    using pos by (simp add: distinct_standard_sizes)
  moreover have "Some (of_int b) \<in> set (standard_sizes (Some b))"
    by (simp add: set_standard_sizes)
  ultimately show ?thesis using True by auto
next
  case False
  then obtain bps where bps: "srcSetBreakpoints opts = Some bps" "bps \<noteq> []" by auto
  have eq: "fluidSizes opts = push_breakpoints bps [Some (of_int b)]"
    using base pos bps by (rule fluidSizes_custom)
  from valid bps have "\<forall>bp\<in>set bps. 1 \<le> bp" by simp
  from push_breakpoints_ok [OF this, of "[Some (of_int b)]"] obtain fs where
    fs: "push_breakpoints bps [Some (of_int b)] = Inr fs"
      "set fs = set [Some (of_int b)] \<union> Some ` set bps"
      "distinct fs" "prefix [Some (of_int b)] fs"
    by auto
  from fs(4) have "hd fs = Some (of_int b)" by (auto simp: prefix_def)
  with eq fs bps show ?thesis by auto
qed

section \<open>Properties of the fluid planner\<close>

lemma Math_round_of_int: "Math_round (of_int n) = n"
  by (simp add: Math_round_def) linarith

lemma Math_round_mono: "x \<le> y \<Longrightarrow> Math_round x \<le> Math_round y"
  by (simp add: Math_round_def floor_mono)

lemma sorted_map_Math_round: "sorted xs \<Longrightarrow> sorted (map Math_round xs)"
  by (induction xs) (auto simp: Math_round_mono)

lemma variant_dimension:
  "arg_at (fluid_transform cto opts md sz) (dimensionAttr opts) = Some (Math_round sz)"
  by (auto simp: fluid_transform_def arg_at_def dimensionAttr_def Let_def
      fluid_fixedDimension_def split: if_splits)

lemma variants_dimensions:
  "map (\<lambda>a. arg_at a (dimensionAttr opts)) (transforms cto opts md xs)
     = map (\<lambda>sz. Some (Math_round sz)) xs"
  by (simp add: transforms_def variant_dimension)

lemma findIndex_none: "\<forall>x\<in>set xs. \<not> P x \<Longrightarrow> findIndex P xs = - 1"
  by (induction xs) auto

lemma push_breakpoints_keeps: "push_breakpoints bps acc = Inr fs \<Longrightarrow> set acc \<subseteq> set fs"
proof (induction bps arbitrary: acc)
  case Nil
  then show ?case by simp
next
  case (Cons bp bps)
  show ?case
  proof (cases "Some bp \<in> set acc")
    case True
    with Cons.prems have "push_breakpoints bps acc = Inr fs" by (simp split: if_splits)
    then show ?thesis by (rule Cons.IH)
  next
    case False
    with Cons.prems have "push_breakpoints bps (acc @ [Some bp]) = Inr fs"
      by (simp split: if_splits)
    from Cons.IH [OF this] show ?thesis by simp
  qed
qed

lemma density_one_index:
  assumes base: "option_at opts (fluid_fixedDimension opts) = Some b" and pos: "1 \<le> b"
    and mem: "Some (of_int b) \<in> set fs"
    and xs: "xs = sort (sizes_below (of_int (intrinsic opts md)) fs @ [of_int (intrinsic opts md)])"
  shows "0 \<le> imageWithDensityOneIndex opts md xs \<and>
         imageWithDensityOneIndex opts md xs < int (length xs) \<and>
         xs ! nat (imageWithDensityOneIndex opts md xs) = of_int (Math_min b (intrinsic opts md))"
proof -
  let ?P = "\<lambda>sz::rat. Some sz = js_num (Some (Math_min b (intrinsic opts md)))"
  have idx: "imageWithDensityOneIndex opts md xs = findIndex ?P xs"
    unfolding imageWithDensityOneIndex_def capped_fixed [OF base pos] ..
  have "of_int (Math_min b (intrinsic opts md)) \<in> set xs"
    unfolding xs using mem by (rule capped_in_final)
  then have "\<exists>x\<in>set xs. ?P x" by (auto simp: js_num_def)
  from findIndex_found [OF this] show ?thesis
    unfolding idx by (simp add: js_num_def)
qed

text \<open>What is planned for valid options: the list, the index, the image read at it.\<close>

lemma fluid_plan:
  assumes base: "option_at opts (fluid_fixedDimension opts) = Some b" and pos: "1 \<le> b"
    and valid: "\<forall>bp\<in>set (case srcSetBreakpoints opts of None \<Rightarrow> [] | Some bps \<Rightarrow> bps). 1 \<le> bp"
  shows "\<exists>xs. filteredSizes opts md = Inr xs \<and> xs \<noteq> [] \<and>
           0 \<le> imageWithDensityOneIndex opts md xs \<and>
           imageWithDensityOneIndex opts md xs < int (length xs) \<and>
           xs ! nat (imageWithDensityOneIndex opts md xs) = of_int (Math_min b (intrinsic opts md)) \<and>
           js_index (batchQueueImageResizing pq (transforms cto opts md xs))
               (imageWithDensityOneIndex opts md xs)
             = Some (pq (fluid_transform cto opts md (of_int (Math_min b (intrinsic opts md)))))"
proof -
  from valid_breakpoints_sizes [OF assms] obtain fs where
    fs: "fluidSizes opts = Inr fs" "Some (of_int b) \<in> set fs" by blast
  define xs where
    "xs = sort (sizes_below (of_int (intrinsic opts md)) fs @ [of_int (intrinsic opts md)])"
  let ?i = "imageWithDensityOneIndex opts md xs"
  have f: "filteredSizes opts md = Inr xs" using fs by (simp add: filteredSizes_def xs_def)
  from density_one_index [OF base pos fs(2) xs_def]
  have i: "0 \<le> ?i" "?i < int (length xs)"
    "xs ! nat ?i = of_int (Math_min b (intrinsic opts md))" by auto
  have n: "nat ?i < length xs" using i by simp
  have one: "js_index (batchQueueImageResizing pq (transforms cto opts md xs)) ?i
      = Some (pq (fluid_transform cto opts md (of_int (Math_min b (intrinsic opts md)))))"
    using i n by (simp add: js_index_def batchQueueImageResizing_def transforms_def)
  have "xs \<noteq> []" using n by auto
  with f i one show ?thesis by blast
qed

lemma base64Image_rejects:
  assumes "images \<noteq> []" and "base64Image g opts images = Inl e"
  shows "\<exists>reason. e = Rejected reason"
proof -
  from assms(1) obtain first where first: "js_index images 0 = Some first"
    by (cases images) (auto simp: js_index_def)
  with assms(2) show ?thesis
    by (auto simp: base64Image_def split: if_splits sum.splits)
qed

lemma getTracedSVG_rejects:
  "getTracedSVG t opts = Inl e \<Longrightarrow> \<exists>reason. e = Rejected reason"
  by (auto simp: getTracedSVG_def split: if_splits sum.splits)

lemma fluidSizes_base:
  assumes "fluidSizes opts = Inr fs" and "option_at opts (fluid_fixedDimension opts) = Some b"
  shows "1 \<le> b \<and> Some (of_int b) \<in> set fs"
proof -
  from assms have pos: "1 \<le> b"
    by (auto simp: fluidSizes_def Let_def js_lt_def js_num_def split: if_splits)
  show ?thesis
  proof (cases "srcSetBreakpoints opts = None \<or> srcSetBreakpoints opts = Some []")
    case True
    from fluidSizes_standard [OF assms(2) pos True] assms(1)
    have "fs = standard_sizes (Some b)" by simp
    with pos show ?thesis by (simp add: set_standard_sizes)
  next
    case False
    then obtain bps where bps: "srcSetBreakpoints opts = Some bps" "bps \<noteq> []" by auto
    from fluidSizes_custom [OF assms(2) pos bps] assms(1)
    have "push_breakpoints bps [Some (of_int b)] = Inr fs" by simp
    from push_breakpoints_keeps [OF this] pos show ?thesis by simp
  qed
qed

text \<open>Whenever a list is planned for an option that is there, the lookup finds its image.\<close>

lemma fluid_one:
  assumes base: "option_at opts (fluid_fixedDimension opts) = Some b"
    and f: "filteredSizes opts md = Inr xs"
  shows "js_index (batchQueueImageResizing pq (transforms cto opts md xs))
           (imageWithDensityOneIndex opts md xs)
         = Some (pq (fluid_transform cto opts md (of_int (Math_min b (intrinsic opts md)))))"
proof -
  from f obtain fs where fs: "fluidSizes opts = Inr fs"
    and xs: "xs = sort (sizes_below (of_int (intrinsic opts md)) fs @ [of_int (intrinsic opts md)])"
    by (cases "fluidSizes opts") (auto simp: filteredSizes_def)
  from fluidSizes_base [OF fs base] have pos: "1 \<le> b" and mem: "Some (of_int b) \<in> set fs"
    by auto
  let ?i = "imageWithDensityOneIndex opts md xs"
  from density_one_index [OF base pos mem xs]
  have i: "0 \<le> ?i" "?i < int (length xs)"
    "xs ! nat ?i = of_int (Math_min b (intrinsic opts md))" by auto
  then have n: "nat ?i < length xs" by simp
  show ?thesis
    using i n by (simp add: js_index_def batchQueueImageResizing_def transforms_def)
qed

text \<open>What \<^verbatim>\<open>fluid\<close> returns once the list is planned and the placeholders are there.\<close>

lemma fluid_result:
  assumes f: "filteredSizes opts md = Inr xs"
    and one: "js_index (batchQueueImageResizing pq (transforms cto opts md xs))
                (imageWithDensityOneIndex opts md xs) = Some one"
    and p: "base64Image g opts (batchQueueImageResizing pq (transforms cto opts md xs)) = Inr p"
    and svg: "getTracedSVG t opts = Inr svg"
  shows "\<exists>r. fluid cto pq g t opts (Some md) = Inr (Some r) \<and>
           fl_srcSet r =
             join ('','' @ [CHR 0x0A])
               (map (\<lambda>sz. src (pq (fluid_transform cto opts md sz)) @ '' '' @
                       show_int (img_width (pq (fluid_transform cto opts md sz))) @ ''w'') xs) \<and>
           fl_sizes r =
             (if truthy_string (sizes opts) then the (sizes opts)
              else default_sizes (img_width one)) \<and>
           fl_presentationWidth r = img_width one \<and>
           fl_presentationHeight r = img_height one \<and>
           fl_base64 r = p \<and> fl_tracedSVG r = svg"
proof -
  let ?imgs = "batchQueueImageResizing pq (transforms cto opts md xs)"
  from one have "?imgs \<noteq> []" by (auto simp: js_index_def split: if_splits)
  then obtain first where first: "js_index ?imgs 0 = Some first"
    by (cases ?imgs) (auto simp: js_index_def)
  have m: "map (\<lambda>image. src image @ '' '' @ show_int (img_width image) @ ''w'') ?imgs
      = map (\<lambda>sz. src (pq (fluid_transform cto opts md sz)) @ '' '' @
               show_int (img_width (pq (fluid_transform cto opts md sz))) @ ''w'') xs"
    by (simp add: batchQueueImageResizing_def transforms_def comp_def)
  show ?thesis
    unfolding fluid_def using f one p svg first m by (simp add: Let_def)
qed

text \<open>Once the list is planned, \<^verbatim>\<open>fluid\<close> fails only when a collaborator rejects.\<close>

lemma fluid_failure:
  assumes f: "filteredSizes opts md = Inr xs"
    and one: "js_index (batchQueueImageResizing pq (transforms cto opts md xs))
                (imageWithDensityOneIndex opts md xs) = Some one"
    and e: "fluid cto pq g t opts (Some md) = Inl e"
  shows "\<exists>reason. e = Rejected reason"
proof -
  let ?imgs = "batchQueueImageResizing pq (transforms cto opts md xs)"
  from one have ne: "?imgs \<noteq> []" by (auto simp: js_index_def split: if_splits)
  then obtain first where first: "js_index ?imgs 0 = Some first"
    by (cases ?imgs) (auto simp: js_index_def)
  show ?thesis
  proof (cases "base64Image g opts ?imgs")
    case (Inl x)
    with e f have "e = x" by (simp add: fluid_def Let_def)
    with base64Image_rejects [OF ne Inl] show ?thesis by simp
  next
    case p: (Inr p)
    show ?thesis
    proof (cases "getTracedSVG t opts")
      case (Inl x)
      with e f p have "e = x" by (simp add: fluid_def Let_def)
      with getTracedSVG_rejects [OF Inl] show ?thesis by simp
    next
      case (Inr svg)
      with e f p one first show ?thesis by (simp add: fluid_def Let_def)
    qed
  qed
qed

lemma standard_sizes_integral:
  assumes "4 dvd b" and "Some x \<in> set (standard_sizes (Some b))"
  shows "of_int (Math_round x) = x"
proof -
  from assms(1) obtain k where k: "b = 4 * k" by (rule dvdE)
  have "x = of_int (4 * k) \<or> x = of_int k \<or> x = of_int (2 * k) \<or> x = of_int (6 * k)
      \<or> x = of_int (8 * k)"
    using assms(2) unfolding set_standard_sizes k by auto
  then show ?thesis by (auto simp only: Math_round_of_int)
qed

lemma integral_rounding:
  assumes int: "\<forall>x\<in>set xs. of_int (Math_round x) = x"
  shows "distinct xs \<Longrightarrow> distinct (map Math_round xs)"
    and "sorted_wrt (<) xs \<Longrightarrow> sorted_wrt (<) (map Math_round xs)"
proof -
  have inj: "inj_on Math_round (set xs)"
    by (rule inj_on_inverseI [where g = of_int]) (simp add: int)
  show "distinct xs \<Longrightarrow> distinct (map Math_round xs)"
    by (simp add: distinct_map inj)
  have lt: "Math_round x < Math_round y" if "x \<in> set xs" "y \<in> set xs" "x < y" for x y
  proof -
    from that int have "(of_int (Math_round x) :: rat) < of_int (Math_round y)" by simp
    then show ?thesis by (simp only: of_int_less_iff)
  qed
  show "sorted_wrt (<) (map Math_round xs)" if s: "sorted_wrt (<) xs"
  proof -
    have "sorted_wrt (\<lambda>x y. Math_round x < Math_round y) xs"
      using _ s by (rule sorted_wrt_mono_rel) (rule lt)
    then show ?thesis by (simp only: sorted_wrt_map)
  qed
qed

text \<open>
  Claim C1, as the planner has it. For a chosen option \<open>b\<close> of at least 1 and the
  standard breakpoints, the candidate sizes hold the option capped at the source's size on
  the fixed axis (so the option itself whenever it does not exceed the source), they hold
  the source's size, no size twice, and they ascend strictly. The variants carry these
  sizes rounded to the nearest integer, in this order: their sizes hold the capped option
  and the source's size and ascend, but a size can repeat; none repeats when the option
  is a multiple of 4. When the placeholders it awaits are there, \<^verbatim>\<open>fluid\<close> returns a
  \<^verbatim>\<open>srcSet\<close> with one entry for each of these variants, in this order.
\<close>

theorem fluid_default_sizes:
  assumes "option_at opts (fluid_fixedDimension opts) = Some b" and "1 \<le> b"
    and "srcSetBreakpoints opts = None \<or> srcSetBreakpoints opts = Some []"
  shows "\<exists>xs. filteredSizes opts md = Inr xs \<and>
           of_int (Math_min b (intrinsic opts md)) \<in> set xs \<and>
           (b \<le> intrinsic opts md \<longrightarrow> of_int b \<in> set xs) \<and>
           of_int (intrinsic opts md) \<in> set xs \<and>
           distinct xs \<and> sorted_wrt (<) xs \<and>
           map (\<lambda>a. arg_at a (dimensionAttr opts)) (transforms cto opts md xs)
             = map (\<lambda>sz. Some (Math_round sz)) xs \<and>
           Math_min b (intrinsic opts md) \<in> set (map Math_round xs) \<and>
           intrinsic opts md \<in> set (map Math_round xs) \<and>
           sorted (map Math_round xs) \<and>
           (4 dvd b \<longrightarrow> distinct (map Math_round xs) \<and> sorted_wrt (<) (map Math_round xs)) \<and>
           (\<forall>p svg.
              base64Image g opts (batchQueueImageResizing pq (transforms cto opts md xs)) = Inr p \<and>
              getTracedSVG t opts = Inr svg \<longrightarrow>
              (\<exists>r. fluid cto pq g t opts (Some md) = Inr (Some r) \<and>
                 fl_srcSet r =
                   join ('','' @ [CHR 0x0A])
                     (map (\<lambda>sz. src (pq (fluid_transform cto opts md sz)) @ '' '' @
                             show_int (img_width (pq (fluid_transform cto opts md sz))) @ ''w'')
                        xs)))"
proof -
  let ?w = "of_int (intrinsic opts md) :: rat"
  let ?fs = "standard_sizes (Some b)"
  define xs where "xs = sort (sizes_below ?w ?fs @ [?w])"
  have fs: "fluidSizes opts = Inr ?fs" using assms by (rule fluidSizes_standard)
  then have f: "filteredSizes opts md = Inr xs" by (simp add: filteredSizes_def xs_def)
  have d: "distinct ?fs" using assms(2) by (simp add: distinct_standard_sizes)
  have mem: "Some (of_int b) \<in> set ?fs" by (simp add: set_standard_sizes)
  then have c: "of_int (Math_min b (intrinsic opts md)) \<in> set xs"
    unfolding xs_def by (rule capped_in_final)
  from c have c': "b \<le> intrinsic opts md \<longrightarrow> of_int b \<in> set xs"
    by (cases "b \<le> intrinsic opts md") (simp_all add: Math_min_def)
  have w: "?w \<in> set xs" by (simp add: xs_def)
  have dx: "distinct xs" unfolding xs_def using d by (rule final_list_props)
  have sx: "sorted_wrt (<) xs" unfolding xs_def using d by (rule final_list_props)
  have set_xs: "set xs = insert ?w {x. Some x \<in> set ?fs \<and> x < ?w}"
    unfolding xs_def using d by (rule final_list_props)
  from c have rc: "Math_min b (intrinsic opts md) \<in> set (map Math_round xs)"
    using Math_round_of_int [of "Math_min b (intrinsic opts md)"] by (metis image_eqI set_map)
  from w have rw: "intrinsic opts md \<in> set (map Math_round xs)"
    using Math_round_of_int [of "intrinsic opts md"] by (metis image_eqI set_map)
  have "sorted xs" unfolding xs_def by simp
  then have rs: "sorted (map Math_round xs)" by (rule sorted_map_Math_round)
  have four: "distinct (map Math_round xs) \<and> sorted_wrt (<) (map Math_round xs)" if "4 dvd b"
  proof -
    have "\<forall>x\<in>set xs. of_int (Math_round x) = x"
      unfolding set_xs using standard_sizes_integral [OF that]
      by (auto simp only: Math_round_of_int)
    from integral_rounding [OF this] dx sx show ?thesis by blast
  qed
  have ret: "\<exists>r. fluid cto pq g t opts (Some md) = Inr (Some r) \<and>
      fl_srcSet r =
        join ('','' @ [CHR 0x0A])
          (map (\<lambda>sz. src (pq (fluid_transform cto opts md sz)) @ '' '' @
                  show_int (img_width (pq (fluid_transform cto opts md sz))) @ ''w'') xs)"
    if p: "base64Image g opts (batchQueueImageResizing pq (transforms cto opts md xs)) = Inr p"
      and svg: "getTracedSVG t opts = Inr svg" for p svg
  proof -
    have valid:
      "\<forall>bp\<in>set (case srcSetBreakpoints opts of None \<Rightarrow> [] | Some bps \<Rightarrow> bps). 1 \<le> bp"
      using assms(3) by auto
    from fluid_plan [OF assms(1,2) valid, of md pq cto] f obtain one where
      one: "js_index (batchQueueImageResizing pq (transforms cto opts md xs))
              (imageWithDensityOneIndex opts md xs) = Some one"
      by auto
    from fluid_result [OF f one p svg] show ?thesis by blast
  qed
  from f c c' w dx sx variants_dimensions [of opts cto md xs] rc rw rs four ret
  show ?thesis by blast
qed

text \<open>The planner's own example: a source 1600 wide and \<^verbatim>\<open>maxWidth\<close> 800.\<close>

lemma example_1600_800:
  "filteredSizes (no_options\<lparr>maxWidth := Some 800\<rparr>) \<lparr>md_width = 1600, md_height = 900\<rparr>
     = Inr [200, 400, 800, 1200, 1600]"
  by code_simp

text \<open>
  Sizes that repeat once rounded: a source 400 wide and \<^verbatim>\<open>maxWidth\<close> 799 give the
  candidates 199.75, 399.5 and 400, and variants 200, 400 and 400 wide.
\<close>

lemma example_799_400:
  "filteredSizes (no_options\<lparr>maxWidth := Some 799\<rparr>) \<lparr>md_width = 400, md_height = 300\<rparr>
     = Inr [799 / 4, 799 / 2, 400] \<and>
   map (\<lambda>a. arg_at a (dimensionAttr (no_options\<lparr>maxWidth := Some 799\<rparr>)))
     (transforms sample_createTransformObject (no_options\<lparr>maxWidth := Some 799\<rparr>)
        \<lparr>md_width = 400, md_height = 300\<rparr> [799 / 4, 799 / 2, 400])
     = [Some 200, Some 400, Some 400]"
  by code_simp

text \<open>The example of 1600 and 800 again, through the theorem.\<close>

theorem fluid_default_sizes_witness:
  "filteredSizes (no_options\<lparr>maxWidth := Some 800\<rparr>) \<lparr>md_width = 1600, md_height = 900\<rparr>
     = Inr [200, 400, 800, 1200, 1600] \<and>
   map (\<lambda>a. arg_at a (dimensionAttr (no_options\<lparr>maxWidth := Some 800\<rparr>)))
     (transforms sample_createTransformObject (no_options\<lparr>maxWidth := Some 800\<rparr>)
        \<lparr>md_width = 1600, md_height = 900\<rparr> [200, 400, 800, 1200, 1600])
     = [Some 200, Some 400, Some 800, Some 1200, Some 1600] \<and>
   (\<exists>r. fluid sample_createTransformObject sample_prepareQueue sample_generateBase64
           sample_traceSVG (no_options\<lparr>maxWidth := Some 800\<rparr>)
           (Some \<lparr>md_width = 1600, md_height = 900\<rparr>) = Inr (Some r) \<and>
        fl_srcSet r =
          ''/static/200.png 200w,'' @ [CHR 0x0A] @ ''/static/400.png 400w,'' @ [CHR 0x0A] @
          ''/static/800.png 800w,'' @ [CHR 0x0A] @ ''/static/1200.png 1200w,'' @ [CHR 0x0A] @
          ''/static/1600.png 1600w'')"
proof -
  let ?o = "no_options\<lparr>maxWidth := Some 800\<rparr>"
  let ?m = "\<lparr>md_width = 1600, md_height = 900\<rparr>"
  let ?l = "[200, 400, 800, 1200, 1600] :: rat list"
  have h1: "option_at ?o (fluid_fixedDimension ?o) = Some 800" by code_simp
  have h2: "(1::int) \<le> 800" by simp
  have h3: "srcSetBreakpoints ?o = None \<or> srcSetBreakpoints ?o = Some []"
    by (simp add: no_options_def)
  have e: "filteredSizes ?o ?m = Inr ?l" by code_simp
  have r: "map (\<lambda>sz. Some (Math_round sz)) ?l
      = [Some 200, Some 400, Some 800, Some 1200, Some 1600]"
    by code_simp
  have p: "base64Image sample_generateBase64 ?o
      (batchQueueImageResizing sample_prepareQueue
         (transforms sample_createTransformObject ?o ?m ?l)) = Inr None"
    by (simp add: base64Image_def no_options_def)
  have t: "getTracedSVG sample_traceSVG ?o = Inr None"
    by (simp add: getTracedSVG_def no_options_def)
  have s: "join ('','' @ [CHR 0x0A])
        (map (\<lambda>sz. src (sample_prepareQueue (fluid_transform sample_createTransformObject ?o ?m sz))
                @ '' '' @
                show_int (img_width (sample_prepareQueue
                  (fluid_transform sample_createTransformObject ?o ?m sz))) @ ''w'')
           ?l)
      = ''/static/200.png 200w,'' @ [CHR 0x0A] @ ''/static/400.png 400w,'' @ [CHR 0x0A] @
        ''/static/800.png 800w,'' @ [CHR 0x0A] @ ''/static/1200.png 1200w,'' @ [CHR 0x0A] @
        ''/static/1600.png 1600w''"
    by code_simp
  from fluid_default_sizes [OF h1 h2 h3, of ?m sample_createTransformObject
      sample_generateBase64 sample_prepareQueue sample_traceSVG]
  obtain xs where xs: "filteredSizes ?o ?m = Inr xs"
    and v: "map (\<lambda>a. arg_at a (dimensionAttr ?o)) (transforms sample_createTransformObject ?o ?m xs)
       = map (\<lambda>sz. Some (Math_round sz)) xs"
    and ret: "\<forall>p svg.
       base64Image sample_generateBase64 ?o
         (batchQueueImageResizing sample_prepareQueue
            (transforms sample_createTransformObject ?o ?m xs)) = Inr p \<and>
       getTracedSVG sample_traceSVG ?o = Inr svg \<longrightarrow>
       (\<exists>r. fluid sample_createTransformObject sample_prepareQueue sample_generateBase64
              sample_traceSVG ?o (Some ?m) = Inr (Some r) \<and>
            fl_srcSet r =
              join ('','' @ [CHR 0x0A])
                (map (\<lambda>sz. src (sample_prepareQueue
                          (fluid_transform sample_createTransformObject ?o ?m sz)) @ '' '' @
                        show_int (img_width (sample_prepareQueue
                          (fluid_transform sample_createTransformObject ?o ?m sz))) @ ''w'')
                   xs))"
    by blast
  from xs e have x: "xs = ?l" by simp
  from ret p t have "\<exists>r. fluid sample_createTransformObject sample_prepareQueue
        sample_generateBase64 sample_traceSVG ?o (Some ?m) = Inr (Some r) \<and>
      fl_srcSet r =
        ''/static/200.png 200w,'' @ [CHR 0x0A] @ ''/static/400.png 400w,'' @ [CHR 0x0A] @
        ''/static/800.png 800w,'' @ [CHR 0x0A] @ ''/static/1200.png 1200w,'' @ [CHR 0x0A] @
        ''/static/1600.png 1600w''"
    unfolding x s by blast
  with e v show ?thesis unfolding x r by blast
qed

text \<open>
  Claim C1 as it is worded asks for the option itself among the sizes. A source 600 wide
  and \<^verbatim>\<open>maxWidth\<close> 800: the filter \<^verbatim>\<open>size < width\<close> drops 800.
\<close>

theorem fluid_base_beyond_source_dropped:
  "option_at (no_options\<lparr>maxWidth := Some 800\<rparr>)
     (fluid_fixedDimension (no_options\<lparr>maxWidth := Some 800\<rparr>)) = Some 800 \<and>
   filteredSizes (no_options\<lparr>maxWidth := Some 800\<rparr>) \<lparr>md_width = 600, md_height = 400\<rparr>
     = Inr [200, 400, 600] \<and>
   (800::rat) \<notin> set [200, 400, 600]"
  by code_simp

text \<open>
  Claim C10. For a chosen option \<open>b\<close> of at least 1 (and breakpoints that pass their check,
  without which no lookup is reached), the search for the density-one size finds it: the
  index is not \<open>-1\<close>, it lies within the list and within the images, the size there is
  the option capped at the source, and the image read there is the one of that size's
  variant. So \<^verbatim>\<open>fluid\<close> never throws a \<^verbatim>\<open>TypeError\<close>, and when the placeholders it
  awaits are there it returns the dimensions of that image as the presentation size.
\<close>

theorem fluid_density_one_found:
  assumes "option_at opts (fluid_fixedDimension opts) = Some b" and "1 \<le> b"
    and "\<forall>bp\<in>set (case srcSetBreakpoints opts of None \<Rightarrow> [] | Some bps \<Rightarrow> bps). 1 \<le> bp"
  shows "\<exists>xs. filteredSizes opts md = Inr xs \<and>
           imageWithDensityOneIndex opts md xs \<noteq> - 1 \<and>
           0 \<le> imageWithDensityOneIndex opts md xs \<and>
           imageWithDensityOneIndex opts md xs < int (length xs) \<and>
           imageWithDensityOneIndex opts md xs
             < int (length (batchQueueImageResizing pq (transforms cto opts md xs))) \<and>
           xs ! nat (imageWithDensityOneIndex opts md xs) = of_int (Math_min b (intrinsic opts md)) \<and>
           js_index (batchQueueImageResizing pq (transforms cto opts md xs))
               (imageWithDensityOneIndex opts md xs)
             = Some (pq (fluid_transform cto opts md (of_int (Math_min b (intrinsic opts md))))) \<and>
           fluid cto pq g t opts (Some md) \<noteq> Inl TypeError \<and>
           (\<forall>p svg.
              base64Image g opts (batchQueueImageResizing pq (transforms cto opts md xs)) = Inr p \<and>
              getTracedSVG t opts = Inr svg \<longrightarrow>
              (\<exists>r. fluid cto pq g t opts (Some md) = Inr (Some r) \<and>
                 fl_presentationWidth r =
                   img_width (pq (fluid_transform cto opts md
                     (of_int (Math_min b (intrinsic opts md))))) \<and>
                 fl_presentationHeight r =
                   img_height (pq (fluid_transform cto opts md
                     (of_int (Math_min b (intrinsic opts md)))))))"
proof -
  let ?one = "pq (fluid_transform cto opts md (of_int (Math_min b (intrinsic opts md))))"
  from fluid_plan [OF assms, of md pq cto] obtain xs where
    f: "filteredSizes opts md = Inr xs"
    and i: "0 \<le> imageWithDensityOneIndex opts md xs"
      "imageWithDensityOneIndex opts md xs < int (length xs)"
      "xs ! nat (imageWithDensityOneIndex opts md xs) = of_int (Math_min b (intrinsic opts md))"
    and one: "js_index (batchQueueImageResizing pq (transforms cto opts md xs))
        (imageWithDensityOneIndex opts md xs) = Some ?one"
    by blast
  have len: "length (batchQueueImageResizing pq (transforms cto opts md xs)) = length xs"
    by (simp add: batchQueueImageResizing_def transforms_def)
  from i(1) have n: "imageWithDensityOneIndex opts md xs \<noteq> - 1" by simp
  have te: "fluid cto pq g t opts (Some md) \<noteq> Inl TypeError"
  proof
    assume "fluid cto pq g t opts (Some md) = Inl TypeError"
    from fluid_failure [OF f one this] show False by simp
  qed
  have ret: "\<exists>r. fluid cto pq g t opts (Some md) = Inr (Some r) \<and>
      fl_presentationWidth r = img_width ?one \<and> fl_presentationHeight r = img_height ?one"
    if "base64Image g opts (batchQueueImageResizing pq (transforms cto opts md xs)) = Inr p"
      and "getTracedSVG t opts = Inr svg" for p svg
    using fluid_result [OF f one that] by blast
  from i(2) len have l: "imageWithDensityOneIndex opts md xs
      < int (length (batchQueueImageResizing pq (transforms cto opts md xs)))"
    by simp
  from f n i l one te ret show ?thesis by blast
qed

text \<open>Claim C10 on a source 900 high and \<^verbatim>\<open>maxHeight\<close> 2000, with a placeholder.\<close>

theorem fluid_density_one_found_witness:
  "filteredSizes (no_options\<lparr>maxHeight := Some 2000, base64 := True, base64Width := Some 20\<rparr>)
       \<lparr>md_width = 1600, md_height = 900\<rparr> = Inr [500, 900] \<and>
   imageWithDensityOneIndex
       (no_options\<lparr>maxHeight := Some 2000, base64 := True, base64Width := Some 20\<rparr>)
       \<lparr>md_width = 1600, md_height = 900\<rparr> [500, 900] = 1 \<and>
   (\<exists>r. fluid sample_createTransformObject sample_prepareQueue sample_generateBase64
           sample_traceSVG
           (no_options\<lparr>maxHeight := Some 2000, base64 := True, base64Width := Some 20\<rparr>)
           (Some \<lparr>md_width = 1600, md_height = 900\<rparr>) = Inr (Some r) \<and>
        fl_presentationHeight r = 900)"
proof -
  let ?o = "no_options\<lparr>maxHeight := Some 2000, base64 := True, base64Width := Some 20\<rparr>"
  let ?m = "\<lparr>md_width = 1600, md_height = 900\<rparr>"
  have h1: "option_at ?o (fluid_fixedDimension ?o) = Some 2000" by code_simp
  have h2: "(1::int) \<le> 2000" by simp
  have h3: "\<forall>bp\<in>set (case srcSetBreakpoints ?o of None \<Rightarrow> [] | Some bps \<Rightarrow> bps). 1 \<le> bp"
    by (simp add: no_options_def)
  have e: "filteredSizes ?o ?m = Inr [500, 900]" by code_simp
  have i: "imageWithDensityOneIndex ?o ?m [500, 900] = 1" by code_simp
  have p: "base64Image sample_generateBase64 ?o
      (batchQueueImageResizing sample_prepareQueue
         (transforms sample_createTransformObject ?o ?m [500, 900]))
      = Inr (Some ''data:image/png;base64,11'')"
    by code_simp
  have t: "getTracedSVG sample_traceSVG ?o = Inr None"
    by (simp add: getTracedSVG_def no_options_def)
  have c: "Math_min 2000 (intrinsic ?o ?m) = 900" by code_simp
  have h: "img_height (sample_prepareQueue (fluid_transform sample_createTransformObject ?o ?m
      (of_int 900))) = 900"
    by code_simp
  from fluid_density_one_found [OF h1 h2 h3, of ?m sample_prepareQueue
      sample_createTransformObject sample_generateBase64 sample_traceSVG]
  obtain xs where xs: "filteredSizes ?o ?m = Inr xs"
    and ret: "\<forall>p svg.
       base64Image sample_generateBase64 ?o
         (batchQueueImageResizing sample_prepareQueue
            (transforms sample_createTransformObject ?o ?m xs)) = Inr p \<and>
       getTracedSVG sample_traceSVG ?o = Inr svg \<longrightarrow>
       (\<exists>r. fluid sample_createTransformObject sample_prepareQueue sample_generateBase64
              sample_traceSVG ?o (Some ?m) = Inr (Some r) \<and>
            fl_presentationWidth r =
              img_width (sample_prepareQueue (fluid_transform sample_createTransformObject ?o ?m
                (of_int (Math_min 2000 (intrinsic ?o ?m))))) \<and>
            fl_presentationHeight r =
              img_height (sample_prepareQueue (fluid_transform sample_createTransformObject ?o ?m
                (of_int (Math_min 2000 (intrinsic ?o ?m))))))"
    by blast
  from xs e have x: "xs = [500, 900]" by simp
  from ret p t have "\<exists>r. fluid sample_createTransformObject sample_prepareQueue
        sample_generateBase64 sample_traceSVG ?o (Some ?m) = Inr (Some r) \<and>
      fl_presentationHeight r = 900"
    unfolding x c h by blast
  with e i show ?thesis by blast
qed

text \<open>
  An option of 1 with the placeholder asked for: the first variant is 0 wide, the
  stand-in for \<^verbatim>\<open>prepareQueue\<close> gives it no aspect ratio, the placeholder's height is no
  number, and the rejection of the stand-in for \<^verbatim>\<open>generateBase64\<close> is what \<^verbatim>\<open>fluid\<close>
  throws.
\<close>

lemma example_maxWidth_1:
  "map (\<lambda>a. arg_at a Width)
     (transforms sample_createTransformObject
        (no_options\<lparr>maxWidth := Some 1, base64 := True, base64Width := Some 20\<rparr>)
        \<lparr>md_width = 1600, md_height = 900\<rparr> [1 / 4, 1 / 2, 1, 3 / 2, 2, 1600])
     = [Some 0, Some 1, Some 1, Some 2, Some 2, Some 1600] \<and>
   fluid sample_createTransformObject sample_prepareQueue sample_generateBase64 sample_traceSVG
     (no_options\<lparr>maxWidth := Some 1, base64 := True, base64Width := Some 20\<rparr>)
     (Some \<lparr>md_width = 1600, md_height = 900\<rparr>)
     = Inl (Rejected ''Expected positive integer for height'')"
  by code_simp

text \<open>
  Claim C2, as the planner has it. When the chosen option is at least the source's size
  on the fixed axis, no planned size exceeds the source's size and the source's size is
  the last and largest one; the candidates below it stay. The list is the source's size
  alone exactly when no candidate is below it: with the standard breakpoints when the
  option is at least four times the source's size, with custom ones when no breakpoint
  is below it.
\<close>

theorem fluid_base_at_least_source:
  assumes "option_at opts (fluid_fixedDimension opts) = Some b" and "1 \<le> b"
    and "\<forall>bp\<in>set (case srcSetBreakpoints opts of None \<Rightarrow> [] | Some bps \<Rightarrow> bps). 1 \<le> bp"
    and "intrinsic opts md \<le> b"
  shows "\<exists>xs. filteredSizes opts md = Inr xs \<and>
           last xs = of_int (intrinsic opts md) \<and>
           (\<forall>x\<in>set xs. x \<le> of_int (intrinsic opts md)) \<and>
           (xs = [of_int (intrinsic opts md)] \<longleftrightarrow>
              (if srcSetBreakpoints opts = None \<or> srcSetBreakpoints opts = Some []
               then 4 * intrinsic opts md \<le> b
               else \<forall>bp\<in>set (the (srcSetBreakpoints opts)). of_int (intrinsic opts md) \<le> bp))"
proof -
  let ?w = "intrinsic opts md"
  from valid_breakpoints_sizes [OF assms(1-3)] obtain fs where
    fs: "fluidSizes opts = Inr fs"
      "srcSetBreakpoints opts = None \<or> srcSetBreakpoints opts = Some []
         \<longrightarrow> fs = standard_sizes (Some b)"
      "\<forall>bps. srcSetBreakpoints opts = Some bps \<and> bps \<noteq> []
         \<longrightarrow> set fs = Some ` insert (of_int b) (set bps)"
    by blast
  let ?xs = "sort (sizes_below (of_int ?w) fs @ [of_int ?w])"
  have f: "filteredSizes opts md = Inr ?xs" using fs(1) by (simp add: filteredSizes_def)
  have l: "last ?xs = of_int ?w" "\<forall>x\<in>set ?xs. x \<le> of_int ?w"
    using intrinsic_last [of "of_int ?w" fs] by blast+
  have "(\<forall>x. Some x \<in> set fs \<longrightarrow> \<not> x < of_int ?w) \<longleftrightarrow>
        (if srcSetBreakpoints opts = None \<or> srcSetBreakpoints opts = Some []
         then 4 * ?w \<le> b
         else \<forall>bp\<in>set (the (srcSetBreakpoints opts)). of_int ?w \<le> bp)"
  proof (cases "srcSetBreakpoints opts = None \<or> srcSetBreakpoints opts = Some []")
    case True
    with fs(2) have "fs = standard_sizes (Some b)" by blast
    with True standard_none_below [OF assms(2), of ?w] show ?thesis by simp
  next
    case False
    then obtain bps where bps: "srcSetBreakpoints opts = Some bps" "bps \<noteq> []" by auto
    with fs(3) have s: "set fs = Some ` insert (of_int b) (set bps)" by blast
    have "(\<forall>x. Some x \<in> set fs \<longrightarrow> \<not> x < of_int ?w)
        \<longleftrightarrow> (\<forall>x\<in>insert (of_int b) (set bps). of_int ?w \<le> x)"
      unfolding s by (auto simp: not_less)
    also have "\<dots> \<longleftrightarrow> (\<forall>bp\<in>set bps. of_int ?w \<le> bp)" using assms(4) by simp
    finally show ?thesis using False bps by simp
  qed
  with only_intrinsic [of "of_int ?w" fs]
  have "?xs = [of_int ?w] \<longleftrightarrow>
        (if srcSetBreakpoints opts = None \<or> srcSetBreakpoints opts = Some []
         then 4 * ?w \<le> b
         else \<forall>bp\<in>set (the (srcSetBreakpoints opts)). of_int ?w \<le> bp)"
    by simp
  with f l show ?thesis by blast
qed

text \<open>
  Claim C2 as it is worded leaves the source's size alone. A source 800 wide and
  \<^verbatim>\<open>maxWidth\<close> 800: a quarter and a half of 800 stay.
\<close>

theorem fluid_base_equal_source_keeps_smaller:
  "option_at (no_options\<lparr>maxWidth := Some 800\<rparr>)
     (fluid_fixedDimension (no_options\<lparr>maxWidth := Some 800\<rparr>)) = Some 800 \<and>
   intrinsic (no_options\<lparr>maxWidth := Some 800\<rparr>) \<lparr>md_width = 800, md_height = 600\<rparr> = 800 \<and>
   filteredSizes (no_options\<lparr>maxWidth := Some 800\<rparr>) \<lparr>md_width = 800, md_height = 600\<rparr>
     = Inr [200, 400, 800] \<and>
   [200, 400, 800] \<noteq> [800 :: rat]"
  by code_simp

text \<open>Claim C2 on sources 800 wide, with \<^verbatim>\<open>maxWidth\<close> 4000 and 1000.\<close>

theorem fluid_base_at_least_source_witness:
  "filteredSizes (no_options\<lparr>maxWidth := Some 4000\<rparr>) \<lparr>md_width = 800, md_height = 600\<rparr>
     = Inr [800] \<and>
   filteredSizes (no_options\<lparr>maxWidth := Some 1000\<rparr>) \<lparr>md_width = 800, md_height = 600\<rparr>
     = Inr [250, 500, 800] \<and>
   (\<exists>xs. filteredSizes (no_options\<lparr>maxWidth := Some 1000\<rparr>) \<lparr>md_width = 800, md_height = 600\<rparr>
            = Inr xs \<and> last xs = 800 \<and> (\<forall>x\<in>set xs. x \<le> 800) \<and> xs \<noteq> [800])"
proof -
  let ?o = "no_options\<lparr>maxWidth := Some 1000\<rparr>"
  let ?m = "\<lparr>md_width = 800, md_height = 600\<rparr>"
  have h1: "option_at ?o (fluid_fixedDimension ?o) = Some 1000" by code_simp
  have h2: "(1::int) \<le> 1000" by simp
  have h3: "\<forall>bp\<in>set (case srcSetBreakpoints ?o of None \<Rightarrow> [] | Some bps \<Rightarrow> bps). 1 \<le> bp"
    by (simp add: no_options_def)
  have i: "intrinsic ?o ?m = 800" by code_simp
  have h4: "intrinsic ?o ?m \<le> 1000" unfolding i by simp
  have n: "srcSetBreakpoints ?o = None" by (simp add: no_options_def)
  have e1: "filteredSizes (no_options\<lparr>maxWidth := Some 4000\<rparr>) ?m = Inr [800]"
    by code_simp
  have e2: "filteredSizes ?o ?m = Inr [250, 500, 800]" by code_simp
  from fluid_base_at_least_source [OF h1 h2 h3 h4] e1 e2 show ?thesis
    unfolding i n by simp
qed

text \<open>
  Claim C3, as the planner has it. With a chosen option \<open>b\<close> of at least 1 and a
  non-empty list of custom breakpoints, \<^verbatim>\<open>fluid\<close> throws the breakpoint error exactly when
  some breakpoint is below 1, and then for such a breakpoint. When none is below 1, the
  candidates are the option followed by the breakpoints, each value once, the planned
  sizes are those below the source's size and the source's size, each once, \<^verbatim>\<open>fluid\<close>
  fails only when a collaborator rejects, and it returns when the placeholders it awaits
  are there.
\<close>

theorem fluid_custom_breakpoints:
  assumes "option_at opts (fluid_fixedDimension opts) = Some b" and "1 \<le> b"
    and "srcSetBreakpoints opts = Some bps" and "bps \<noteq> []"
  shows "((\<exists>bad. fluid cto pq g t opts (Some md) = Inl (InvalidBreakpoint bad))
            \<longleftrightarrow> (\<exists>bp\<in>set bps. bp < 1)) \<and>
         ((\<exists>bp\<in>set bps. bp < 1) \<longrightarrow>
            (\<exists>bad\<in>set bps. bad < 1 \<and>
               fluid cto pq g t opts (Some md) = Inl (InvalidBreakpoint bad))) \<and>
         ((\<forall>bp\<in>set bps. 1 \<le> bp) \<longrightarrow>
            (\<exists>fs xs. fluidSizes opts = Inr fs \<and> distinct fs \<and> hd fs = Some (of_int b) \<and>
               set fs = Some ` insert (of_int b) (set bps) \<and>
               filteredSizes opts md = Inr xs \<and> distinct xs \<and>
               set xs = insert (of_int (intrinsic opts md))
                          {x \<in> insert (of_int b) (set bps). x < of_int (intrinsic opts md)} \<and>
               (\<forall>e. fluid cto pq g t opts (Some md) = Inl e \<longrightarrow> (\<exists>reason. e = Rejected reason)) \<and>
               (\<forall>p svg.
                  base64Image g opts (batchQueueImageResizing pq (transforms cto opts md xs))
                    = Inr p \<and>
                  getTracedSVG t opts = Inr svg \<longrightarrow>
                  (\<exists>r. fluid cto pq g t opts (Some md) = Inr (Some r)))))"
proof (cases "\<exists>bp\<in>set bps. bp < 1")
  case True
  then obtain bp where "bp \<in> set bps" "bp < 1" by auto
  from push_breakpoints_bad [OF this, of "[Some (of_int b)]"] obtain bad where
    bad: "push_breakpoints bps [Some (of_int b)] = Inl (InvalidBreakpoint bad)"
      "bad \<in> set bps" "bad < 1" by blast
  have "fluidSizes opts = Inl (InvalidBreakpoint bad)"
    using fluidSizes_custom [OF assms] bad(1) by simp
  then have "fluid cto pq g t opts (Some md) = Inl (InvalidBreakpoint bad)"
    by (simp add: fluid_def filteredSizes_def)
  with True bad show ?thesis by (auto simp: not_le)
next
  case False
  then have ok: "\<forall>bp\<in>set bps. 1 \<le> bp" by (auto simp: not_less)
  then have valid:
    "\<forall>bp\<in>set (case srcSetBreakpoints opts of None \<Rightarrow> [] | Some bps \<Rightarrow> bps). 1 \<le> bp"
    using assms(3) by auto
  from valid_breakpoints_sizes [OF assms(1,2) valid] assms(3,4) obtain fs where
    fs: "fluidSizes opts = Inr fs" "distinct fs" "Some (of_int b) \<in> set fs"
      "set fs = Some ` insert (of_int b) (set bps)" "hd fs = Some (of_int b)"
    by blast
  let ?w = "of_int (intrinsic opts md) :: rat"
  let ?xs = "sort (sizes_below ?w fs @ [?w])"
  have f: "filteredSizes opts md = Inr ?xs" using fs(1) by (simp add: filteredSizes_def)
  have d: "distinct ?xs" using fs(2) by (rule final_list_props)
  have "set ?xs = insert ?w {x. Some x \<in> set fs \<and> x < ?w}"
    using fs(2) by (rule final_list_props)
  also have "{x. Some x \<in> set fs \<and> x < ?w} = {x \<in> insert (of_int b) (set bps). x < ?w}"
    unfolding fs(4) by auto
  finally have s: "set ?xs = insert ?w {x \<in> insert (of_int b) (set bps). x < ?w}" .
  from fluid_plan [OF assms(1,2) valid, of md pq cto] f obtain one where
    one: "js_index (batchQueueImageResizing pq (transforms cto opts md ?xs))
            (imageWithDensityOneIndex opts md ?xs) = Some one"
    by auto
  have rej: "\<forall>e. fluid cto pq g t opts (Some md) = Inl e \<longrightarrow> (\<exists>reason. e = Rejected reason)"
    using fluid_failure [OF f one] by blast
  then have nb: "\<not> (\<exists>bad. fluid cto pq g t opts (Some md) = Inl (InvalidBreakpoint bad))"
    by auto
  have ret: "\<forall>p svg.
      base64Image g opts (batchQueueImageResizing pq (transforms cto opts md ?xs)) = Inr p \<and>
      getTracedSVG t opts = Inr svg \<longrightarrow>
      (\<exists>r. fluid cto pq g t opts (Some md) = Inr (Some r))"
    using fluid_result [OF f one] by blast
  from fs f d s rej ret have
    "\<exists>fs xs. fluidSizes opts = Inr fs \<and> distinct fs \<and> hd fs = Some (of_int b) \<and>
       set fs = Some ` insert (of_int b) (set bps) \<and>
       filteredSizes opts md = Inr xs \<and> distinct xs \<and>
       set xs = insert ?w {x \<in> insert (of_int b) (set bps). x < ?w} \<and>
       (\<forall>e. fluid cto pq g t opts (Some md) = Inl e \<longrightarrow> (\<exists>reason. e = Rejected reason)) \<and>
       (\<forall>p svg.
          base64Image g opts (batchQueueImageResizing pq (transforms cto opts md xs)) = Inr p \<and>
          getTracedSVG t opts = Inr svg \<longrightarrow>
          (\<exists>r. fluid cto pq g t opts (Some md) = Inr (Some r)))"
    by (intro exI [of _ fs] exI [of _ ?xs]) simp
  with False nb show ?thesis by simp
qed

text \<open>
  Claim C3 as it is worded accepts every breakpoint greater than 0. A breakpoint of one
  half is greater than 0 and below 1: \<^verbatim>\<open>fluid\<close> throws.
\<close>

theorem fluid_breakpoint_between_0_and_1_rejected:
  "(0::rat) < 1 / 2 \<and>
   fluid sample_createTransformObject sample_prepareQueue sample_generateBase64 sample_traceSVG
     (no_options\<lparr>maxWidth := Some 800, srcSetBreakpoints := Some [400, 1 / 2]\<rparr>)
     (Some \<lparr>md_width = 1600, md_height = 900\<rparr>)
     = Inl (InvalidBreakpoint (1 / 2))"
  by code_simp

text \<open>Claim C3 on breakpoints that repeat the option and one another.\<close>

theorem fluid_custom_breakpoints_witness:
  "fluidSizes (no_options\<lparr>maxWidth := Some 800, srcSetBreakpoints := Some [400, 800, 2000, 400]\<rparr>)
     = Inr [Some 800, Some 400, Some 2000] \<and>
   filteredSizes (no_options\<lparr>maxWidth := Some 800, srcSetBreakpoints := Some [400, 800, 2000, 400]\<rparr>)
       \<lparr>md_width = 1600, md_height = 900\<rparr>
     = Inr [400, 800, 1600] \<and>
   (\<exists>r. fluid sample_createTransformObject sample_prepareQueue sample_generateBase64
           sample_traceSVG
           (no_options\<lparr>maxWidth := Some 800, srcSetBreakpoints := Some [400, 800, 2000, 400]\<rparr>)
           (Some \<lparr>md_width = 1600, md_height = 900\<rparr>) = Inr (Some r))"
proof -
  let ?o = "no_options\<lparr>maxWidth := Some 800, srcSetBreakpoints := Some [400, 800, 2000, 400]\<rparr>"
  let ?m = "\<lparr>md_width = 1600, md_height = 900\<rparr>"
  have h1: "option_at ?o (fluid_fixedDimension ?o) = Some 800" by code_simp
  have h2: "(1::int) \<le> 800" by simp
  have h3: "srcSetBreakpoints ?o = Some [400, 800, 2000, 400]" by (simp add: no_options_def)
  have h4: "[400, 800, 2000, 400] \<noteq> ([] :: rat list)" by simp
  have ok: "\<forall>bp\<in>set [400, 800, 2000, 400 :: rat]. 1 \<le> bp" by simp
  have e1: "fluidSizes ?o = Inr [Some 800, Some 400, Some 2000]" by code_simp
  have e2: "filteredSizes ?o ?m = Inr [400, 800, 1600]" by code_simp
  have p: "base64Image sample_generateBase64 ?o
      (batchQueueImageResizing sample_prepareQueue
         (transforms sample_createTransformObject ?o ?m [400, 800, 1600])) = Inr None"
    by (simp add: base64Image_def no_options_def)
  have t: "getTracedSVG sample_traceSVG ?o = Inr None"
    by (simp add: getTracedSVG_def no_options_def)
  note c = fluid_custom_breakpoints [OF h1 h2 h3 h4, of sample_createTransformObject
      sample_prepareQueue sample_generateBase64 sample_traceSVG ?m]
  from c [THEN conjunct2, THEN conjunct2, THEN mp, OF ok] obtain fs xs where
    xs: "filteredSizes ?o ?m = Inr xs"
    and ret: "\<forall>p svg.
       base64Image sample_generateBase64 ?o
         (batchQueueImageResizing sample_prepareQueue
            (transforms sample_createTransformObject ?o ?m xs)) = Inr p \<and>
       getTracedSVG sample_traceSVG ?o = Inr svg \<longrightarrow>
       (\<exists>r. fluid sample_createTransformObject sample_prepareQueue sample_generateBase64
              sample_traceSVG ?o (Some ?m) = Inr (Some r))"
    by blast
  from xs e2 have x: "xs = [400, 800, 1600]" by simp
  from ret p t have "\<exists>r. fluid sample_createTransformObject sample_prepareQueue
        sample_generateBase64 sample_traceSVG ?o (Some ?m) = Inr (Some r)"
    unfolding x by blast
  with e1 e2 show ?thesis by blast
qed

text \<open>
  Claim C7. For a chosen option \<open>b\<close> of at least 1 (and breakpoints that pass their
  check), \<^verbatim>\<open>fluid\<close> returns when the placeholders it awaits are there, and in whatever it
  returns, \<^verbatim>\<open>sizes\<close> is the caller's \<^verbatim>\<open>sizes\<close> option when one is set (a string that
  is not empty, as \<^verbatim>\<open>||\<close> has it) and otherwise the default built from
  \<^verbatim>\<open>presentationWidth\<close>; \<^verbatim>\<open>presentationWidth\<close> is the width of the image of the variant
  whose size on the fixed axis is the chosen option capped at the source.
\<close>

theorem fluid_sizes_attribute:
  assumes "option_at opts (fluid_fixedDimension opts) = Some b" and "1 \<le> b"
    and "\<forall>bp\<in>set (case srcSetBreakpoints opts of None \<Rightarrow> [] | Some bps \<Rightarrow> bps). 1 \<le> bp"
  shows "\<exists>xs. filteredSizes opts md = Inr xs \<and>
           of_int (Math_min b (intrinsic opts md)) \<in> set xs \<and>
           arg_at (fluid_transform cto opts md (of_int (Math_min b (intrinsic opts md))))
               (dimensionAttr opts)
             = Some (Math_min b (intrinsic opts md)) \<and>
           (\<forall>p svg.
              base64Image g opts (batchQueueImageResizing pq (transforms cto opts md xs)) = Inr p \<and>
              getTracedSVG t opts = Inr svg \<longrightarrow>
              (\<exists>r. fluid cto pq g t opts (Some md) = Inr (Some r))) \<and>
           (\<forall>r. fluid cto pq g t opts (Some md) = Inr (Some r) \<longrightarrow>
              fl_presentationWidth r =
                img_width (pq (fluid_transform cto opts md
                  (of_int (Math_min b (intrinsic opts md))))) \<and>
              fl_sizes r =
                (if truthy_string (sizes opts) then the (sizes opts)
                 else ''(max-width: '' @ show_int (fl_presentationWidth r) @ ''px) 100vw, '' @
                      show_int (fl_presentationWidth r) @ ''px''))"
proof -
  let ?c = "Math_min b (intrinsic opts md)"
  let ?one = "pq (fluid_transform cto opts md (of_int ?c))"
  from fluid_plan [OF assms, of md pq cto] obtain xs where
    f: "filteredSizes opts md = Inr xs"
    and i: "0 \<le> imageWithDensityOneIndex opts md xs"
      "imageWithDensityOneIndex opts md xs < int (length xs)"
      "xs ! nat (imageWithDensityOneIndex opts md xs) = of_int ?c"
    and one: "js_index (batchQueueImageResizing pq (transforms cto opts md xs))
        (imageWithDensityOneIndex opts md xs) = Some ?one"
    by blast
  let ?imgs = "batchQueueImageResizing pq (transforms cto opts md xs)"
  from i have mem: "of_int ?c \<in> set xs" by (metis nat_less_iff nth_mem)
  have v: "arg_at (fluid_transform cto opts md (of_int ?c)) (dimensionAttr opts) = Some ?c"
    by (simp add: variant_dimension Math_round_of_int)
  have ret: "\<forall>p svg. base64Image g opts ?imgs = Inr p \<and> getTracedSVG t opts = Inr svg \<longrightarrow>
      (\<exists>r. fluid cto pq g t opts (Some md) = Inr (Some r))"
    using fluid_result [OF f one] by blast
  have any: "fl_presentationWidth r = img_width ?one \<and>
      fl_sizes r =
        (if truthy_string (sizes opts) then the (sizes opts)
         else ''(max-width: '' @ show_int (fl_presentationWidth r) @ ''px) 100vw, '' @
              show_int (fl_presentationWidth r) @ ''px'')"
    if r: "fluid cto pq g t opts (Some md) = Inr (Some r)" for r
  proof -
    from r f obtain p where p: "base64Image g opts ?imgs = Inr p"
      by (cases "base64Image g opts ?imgs") (auto simp: fluid_def Let_def)
    from r f p obtain svg where svg: "getTracedSVG t opts = Inr svg"
      by (cases "getTracedSVG t opts") (auto simp: fluid_def Let_def)
    from fluid_result [OF f one p svg] r
    have "fl_presentationWidth r = img_width ?one"
      "fl_sizes r = (if truthy_string (sizes opts) then the (sizes opts)
                     else default_sizes (img_width ?one))"
      by auto
    then show ?thesis by (simp add: default_sizes_def)
  qed
  from f mem v ret any show ?thesis by blast
qed

text \<open>
  Claim C7 on a source 1600 wide and \<^verbatim>\<open>maxWidth\<close> 2000, which is capped, without and with
  \<^verbatim>\<open>sizes\<close>.
\<close>

theorem fluid_sizes_attribute_witness:
  "(\<exists>r. fluid sample_createTransformObject sample_prepareQueue sample_generateBase64
           sample_traceSVG (no_options\<lparr>maxWidth := Some 2000\<rparr>)
           (Some \<lparr>md_width = 1600, md_height = 900\<rparr>) = Inr (Some r) \<and>
        fl_presentationWidth r = 1600 \<and>
        fl_sizes r = ''(max-width: 1600px) 100vw, 1600px'') \<and>
   (\<exists>r. fluid sample_createTransformObject sample_prepareQueue sample_generateBase64
           sample_traceSVG (no_options\<lparr>maxWidth := Some 2000, sizes := Some ''50vw''\<rparr>)
           (Some \<lparr>md_width = 1600, md_height = 900\<rparr>) = Inr (Some r) \<and>
        fl_presentationWidth r = 1600 \<and>
        fl_sizes r = ''50vw'')"
proof -
  let ?m = "\<lparr>md_width = 1600, md_height = 900\<rparr>"
  have a: "\<exists>r. fluid sample_createTransformObject sample_prepareQueue sample_generateBase64
        sample_traceSVG opts (Some ?m) = Inr (Some r) \<and>
      fl_presentationWidth r = 1600 \<and>
      fl_sizes r = (if truthy_string (sizes opts) then the (sizes opts)
                    else ''(max-width: 1600px) 100vw, 1600px'')"
    if o: "maxWidth opts = Some 2000" "srcSetBreakpoints opts = None" "\<not> base64 opts"
      "\<not> generateTracedSVG opts" for opts
  proof -
    have h1: "option_at opts (fluid_fixedDimension opts) = Some 2000"
      using o by (simp add: option_at_def fluid_fixedDimension_def)
    have h2: "(1::int) \<le> 2000" by simp
    have h3: "\<forall>bp\<in>set (case srcSetBreakpoints opts of None \<Rightarrow> [] | Some bps \<Rightarrow> bps). 1 \<le> bp"
      using o by simp
    have c: "Math_min 2000 (intrinsic opts ?m) = 1600"
      using o by (simp add: intrinsic_def fluid_fixedDimension_def Math_min_def)
    have w: "img_width (sample_prepareQueue
        (fluid_transform sample_createTransformObject opts ?m (of_int 1600))) = 1600"
      using variant_dimension [of sample_createTransformObject opts ?m "of_int 1600",
          unfolded Math_round_of_int] o
      by (simp add: sample_prepareQueue_def arg_at_def dimensionAttr_def
          fluid_fixedDimension_def)
    have s: "show_int 1600 = ''1600''" by code_simp
    from fluid_sizes_attribute [OF h1 h2 h3, of ?m sample_createTransformObject
        sample_generateBase64 sample_prepareQueue sample_traceSVG]
    obtain xs where
      ret: "\<forall>p svg.
         base64Image sample_generateBase64 opts
           (batchQueueImageResizing sample_prepareQueue
              (transforms sample_createTransformObject opts ?m xs)) = Inr p \<and>
         getTracedSVG sample_traceSVG opts = Inr svg \<longrightarrow>
         (\<exists>r. fluid sample_createTransformObject sample_prepareQueue sample_generateBase64
                sample_traceSVG opts (Some ?m) = Inr (Some r))"
      and any: "\<forall>r. fluid sample_createTransformObject sample_prepareQueue
           sample_generateBase64 sample_traceSVG opts (Some ?m) = Inr (Some r) \<longrightarrow>
         fl_presentationWidth r =
           img_width (sample_prepareQueue (fluid_transform sample_createTransformObject opts ?m
             (of_int 1600))) \<and>
         fl_sizes r =
           (if truthy_string (sizes opts) then the (sizes opts)
            else ''(max-width: '' @ show_int (fl_presentationWidth r) @ ''px) 100vw, '' @
                 show_int (fl_presentationWidth r) @ ''px'')"
      unfolding c by blast
    have "base64Image sample_generateBase64 opts
        (batchQueueImageResizing sample_prepareQueue
           (transforms sample_createTransformObject opts ?m xs)) = Inr None"
      using o by (simp add: base64Image_def)
    moreover have "getTracedSVG sample_traceSVG opts = Inr None"
      using o by (simp add: getTracedSVG_def)
    ultimately obtain r where
      r: "fluid sample_createTransformObject sample_prepareQueue sample_generateBase64
            sample_traceSVG opts (Some ?m) = Inr (Some r)"
      using ret by blast
    from any r have "fl_presentationWidth r = 1600"
      and "fl_sizes r =
           (if truthy_string (sizes opts) then the (sizes opts)
            else ''(max-width: '' @ show_int (fl_presentationWidth r) @ ''px) 100vw, '' @
                 show_int (fl_presentationWidth r) @ ''px'')"
      unfolding w by blast+
    with r show ?thesis by (auto simp: s)
  qed
  have o1: "maxWidth (no_options\<lparr>maxWidth := Some 2000\<rparr>) = Some 2000"
    "srcSetBreakpoints (no_options\<lparr>maxWidth := Some 2000\<rparr>) = None"
    "\<not> base64 (no_options\<lparr>maxWidth := Some 2000\<rparr>)"
    "\<not> generateTracedSVG (no_options\<lparr>maxWidth := Some 2000\<rparr>)"
    "\<not> truthy_string (sizes (no_options\<lparr>maxWidth := Some 2000\<rparr>))"
    by (simp_all add: no_options_def truthy_string_def)
  have o2: "maxWidth (no_options\<lparr>maxWidth := Some 2000, sizes := Some ''50vw''\<rparr>) = Some 2000"
    "srcSetBreakpoints (no_options\<lparr>maxWidth := Some 2000, sizes := Some ''50vw''\<rparr>) = None"
    "\<not> base64 (no_options\<lparr>maxWidth := Some 2000, sizes := Some ''50vw''\<rparr>)"
    "\<not> generateTracedSVG (no_options\<lparr>maxWidth := Some 2000, sizes := Some ''50vw''\<rparr>)"
    "truthy_string (sizes (no_options\<lparr>maxWidth := Some 2000, sizes := Some ''50vw''\<rparr>))"
    "the (sizes (no_options\<lparr>maxWidth := Some 2000, sizes := Some ''50vw''\<rparr>)) = ''50vw''"
    by (simp_all add: no_options_def truthy_string_def)
  from a [OF o1(1-4)] a [OF o2(1-4)] o1(5) o2(5,6) show ?thesis by auto
qed

text \<open>
  Claim C6, as the planner has it. With both \<^verbatim>\<open>maxWidth\<close> and \<^verbatim>\<open>maxHeight\<close> set, the
  width of a variant is its size rounded, and its height is the size times a ratio,
  rounded: the ratio of the two options when \<^verbatim>\<open>fit\<close> is not \<^verbatim>\<open>inside\<close>, and the ratio
  of the two options capped at the source's dimensions when it is. The ratio and the
  product are doubles, so the height can be one less than exact arithmetic would give.
  These variants, one for each planned size, are the ones whose images \<^verbatim>\<open>fluid\<close> lists
  in the \<^verbatim>\<open>srcSet\<close> it returns.
\<close>

theorem fluid_height_both_max:
  assumes "maxWidth opts = Some w" and "maxHeight opts = Some h" and "1 \<le> w"
  shows "arg_width (fluid_transform cto opts md sz) = Some (Math_round sz) \<and>
         (fit opts \<noteq> Inside \<longrightarrow>
            arg_height (fluid_transform cto opts md sz)
              = Some (Math_round (to_double (sz * to_double (of_int h / of_int w))))) \<and>
         (fit opts = Inside \<and> h \<noteq> 0 \<and> 0 < md_width md \<longrightarrow>
            arg_height (fluid_transform cto opts md sz)
              = Some (Math_round (to_double (sz * to_double
                   (of_int (Math_min h (md_height md)) / of_int (Math_min w (md_width md))))))) \<and>
         (\<forall>xs p svg.
            filteredSizes opts md = Inr xs \<and>
            base64Image g opts (batchQueueImageResizing pq (transforms cto opts md xs)) = Inr p \<and>
            getTracedSVG t opts = Inr svg \<longrightarrow>
            (\<exists>r. fluid cto pq g t opts (Some md) = Inr (Some r) \<and>
               fl_srcSet r =
                 join ('','' @ [CHR 0x0A])
                   (map (\<lambda>s. src (pq (fluid_transform cto opts md s)) @ '' '' @
                           show_int (img_width (pq (fluid_transform cto opts md s))) @ ''w'')
                      xs)))"
proof -
  have v: "arg_width (fluid_transform cto opts md sz) = Some (Math_round sz) \<and>
      (fit opts \<noteq> Inside \<longrightarrow>
         arg_height (fluid_transform cto opts md sz)
           = Some (Math_round (to_double (sz * to_double (of_int h / of_int w))))) \<and>
      (fit opts = Inside \<and> h \<noteq> 0 \<and> 0 < md_width md \<longrightarrow>
         arg_height (fluid_transform cto opts md sz)
           = Some (Math_round (to_double (sz * to_double
                (of_int (Math_min h (md_height md)) / of_int (Math_min w (md_width md)))))))"
    using assms
    by (auto simp: fluid_transform_def Let_def fluid_fixedDimension_def js_ratio_def
        js_scaled_def capped_maxWidth_def capped_maxHeight_def truthy_def Math_min_def)
  have base: "option_at opts (fluid_fixedDimension opts) = Some w"
    using assms(1) by (simp add: option_at_def fluid_fixedDimension_def)
  have q: "\<exists>r. fluid cto pq g t opts (Some md) = Inr (Some r) \<and>
      fl_srcSet r =
        join ('','' @ [CHR 0x0A])
          (map (\<lambda>s. src (pq (fluid_transform cto opts md s)) @ '' '' @
                  show_int (img_width (pq (fluid_transform cto opts md s))) @ ''w'') xs)"
    if f: "filteredSizes opts md = Inr xs"
      and p: "base64Image g opts (batchQueueImageResizing pq (transforms cto opts md xs)) = Inr p"
      and svg: "getTracedSVG t opts = Inr svg" for xs p svg
    using fluid_result [OF f fluid_one [OF base f] p svg] by blast
  from v q show ?thesis by blast
qed

text \<open>
  Claim C6 as it is worded takes the ratio of the options whatever the fit. A source of
  1600 by 900, \<^verbatim>\<open>maxWidth\<close> 800, \<^verbatim>\<open>maxHeight\<close> 1000 and fit \<^verbatim>\<open>inside\<close>: the variant 800
  wide is 900 high, where the ratio of the options gives 1000.
\<close>

theorem fluid_height_inside_uses_capped_ratio:
  "filteredSizes (no_options\<lparr>maxWidth := Some 800, maxHeight := Some 1000, fit := Inside\<rparr>)
       \<lparr>md_width = 1600, md_height = 900\<rparr>
     = Inr [200, 400, 800, 1200, 1600] \<and>
   arg_height (fluid_transform sample_createTransformObject
       (no_options\<lparr>maxWidth := Some 800, maxHeight := Some 1000, fit := Inside\<rparr>)
       \<lparr>md_width = 1600, md_height = 900\<rparr> 800) = Some 900 \<and>
   Math_round (to_double (800 * to_double (of_int 1000 / of_int 800))) = 1000"
  by code_simp

text \<open>
  Claim C6 on variants of that source. With \<^verbatim>\<open>maxWidth\<close> 800 and \<^verbatim>\<open>maxHeight\<close> 427 the
  variant 400 wide is 213 high, the product being the double just below 213.5; with
  \<^verbatim>\<open>maxHeight\<close> 1000 it is 500 high, and 450 high for the fit \<^verbatim>\<open>inside\<close>.
\<close>

theorem fluid_height_both_max_witness:
  "arg_width (fluid_transform sample_createTransformObject
       (no_options\<lparr>maxWidth := Some 800, maxHeight := Some 427\<rparr>)
       \<lparr>md_width = 1600, md_height = 900\<rparr> 400) = Some 400 \<and>
   arg_height (fluid_transform sample_createTransformObject
       (no_options\<lparr>maxWidth := Some 800, maxHeight := Some 427\<rparr>)
       \<lparr>md_width = 1600, md_height = 900\<rparr> 400) = Some 213 \<and>
   arg_height (fluid_transform sample_createTransformObject
       (no_options\<lparr>maxWidth := Some 800, maxHeight := Some 1000\<rparr>)
       \<lparr>md_width = 1600, md_height = 900\<rparr> 400) = Some 500 \<and>
   arg_height (fluid_transform sample_createTransformObject
       (no_options\<lparr>maxWidth := Some 800, maxHeight := Some 1000, fit := Inside\<rparr>)
       \<lparr>md_width = 1600, md_height = 900\<rparr> 400) = Some 450"
proof -
  let ?a = "no_options\<lparr>maxWidth := Some 800, maxHeight := Some 427\<rparr>"
  let ?o = "no_options\<lparr>maxWidth := Some 800, maxHeight := Some 1000\<rparr>"
  let ?i = "no_options\<lparr>maxWidth := Some 800, maxHeight := Some 1000, fit := Inside\<rparr>"
  let ?m = "\<lparr>md_width = 1600, md_height = 900\<rparr>"
  have a: "maxWidth ?a = Some 800" "maxHeight ?a = Some 427" "fit ?a \<noteq> Inside"
    by (simp_all add: no_options_def)
  have o: "maxWidth ?o = Some 800" "maxHeight ?o = Some 1000" "fit ?o \<noteq> Inside"
    by (simp_all add: no_options_def)
  have i: "maxWidth ?i = Some 800" "maxHeight ?i = Some 1000"
    "fit ?i = Inside \<and> (1000::int) \<noteq> 0 \<and> 0 < md_width ?m"
    by (simp_all add: no_options_def)
  have w: "(1::int) \<le> 800" by simp
  have r: "Math_round 400 = 400"
    "Math_round (to_double (400 * to_double (of_int 427 / of_int 800))) = 213"
    "Math_round (to_double (400 * to_double (of_int 1000 / of_int 800))) = 500"
    "Math_round (to_double (400 * to_double
       (of_int (Math_min 1000 (md_height ?m)) / of_int (Math_min 800 (md_width ?m))))) = 450"
    by code_simp+
  note v = fluid_height_both_max [where cto = sample_createTransformObject and md = ?m
      and sz = 400 and pq = sample_prepareQueue and g = sample_generateBase64
      and t = sample_traceSVG]
  from v [OF a(1,2) w] a(3) v [OF o(1,2) w] o(3) v [OF i(1,2) w] i(3)
  show ?thesis unfolding r by simp
qed

text \<open>
  More heights that doubles give and exact arithmetic does not: 640 and not 641 for the
  variant 1200 wide under \<^verbatim>\<open>maxWidth\<close> 800 and \<^verbatim>\<open>maxHeight\<close> 427, and in \<^verbatim>\<open>fixed\<close> 451
  and not 452 for the size 300 under a width of 200 and a height of 301.
\<close>

lemma example_double_heights:
  "arg_height (fluid_transform sample_createTransformObject
       (no_options\<lparr>maxWidth := Some 800, maxHeight := Some 427\<rparr>)
       \<lparr>md_width = 1600, md_height = 900\<rparr> 1200) = Some 640 \<and>
   arg_height (fixed_transform sample_createTransformObject
       (no_options\<lparr>width := Some 200, height := Some 301\<rparr>) 300) = Some 451"
  by code_simp

section \<open>Properties of the fixed planner\<close>












section \<open>Properties of the directory provider\<close>

lemma ensureDir_makes:
  "ensureDir fs p = Inr fs' \<Longrightarrow> fs' p = Some Directory"
  by (auto simp: ensureDir_def split: option.splits entry.splits if_splits)

lemma ensureDir_there: "fs p = Some Directory \<Longrightarrow> ensureDir fs p = Inr fs"
  by (simp add: ensureDir_def)

lemma read_found:
  "fs (makePath j r p) \<noteq> None \<Longrightarrow>
   read j fs r p = Inr (Some \<lparr>res_id = p, res_path = p, res_message = message p\<rparr>)"
  by (auto simp: read_def directoryExists_def accessSync_def Let_def)

text \<open>
  Claim C8. \<^verbatim>\<open>read\<close> never throws. It returns the absent value when \<^verbatim>\<open>directoryExists\<close>
  is false of the path, which is when nothing is there, and otherwise a resource whose id
  and path are the path asked for. \<^verbatim>\<open>directoryExists\<close> is the source's test: something
  is at the path.
\<close>

theorem read_directory:
  "read join_paths fs root_dir p =
     Inr (if directoryExists fs (makePath join_paths root_dir p)
          then Some \<lparr>res_id = p, res_path = p, res_message = message p\<rparr> else None) \<and>
   (\<forall>e. read join_paths fs root_dir p \<noteq> Inl e) \<and>
   (fs (makePath join_paths root_dir p) = None \<longrightarrow> read join_paths fs root_dir p = Inr None) \<and>
   (fs (makePath join_paths root_dir p) = Some Directory \<longrightarrow>
      (\<exists>res. read join_paths fs root_dir p = Inr (Some res) \<and> res_id res = p \<and> res_path res = p))"
  by (auto simp: read_def directoryExists_def accessSync_def Let_def)

text \<open>Claim C8 on a root without and with the directory \<^verbatim>\<open>src\<close>.\<close>

theorem read_directory_witness:
  "read sample_join Map.empty ''/site'' ''src'' = Inr None \<and>
   read sample_join [[''/site'', ''src''] \<mapsto> Directory] ''/site'' ''src''
     = Inr (Some \<lparr>res_id = ''src'', res_path = ''src'',
                  res_message = ''Created directory '' @ [CHR 0x22] @ ''src'' @ [CHR 0x22]\<rparr>)"
proof -
  have a: "Map.empty (makePath sample_join ''/site'' ''src'') = (None :: entry option)" by simp
  have b: "[[''/site'', ''src''] \<mapsto> Directory] (makePath sample_join ''/site'' ''src'')
      = Some Directory"
    by (simp add: makePath_def sample_join_def)
  from read_directory [of sample_join Map.empty "''/site''" "''src''"] a
    read_directory [of sample_join "[[''/site'', ''src''] \<mapsto> Directory]" "''/site''" "''src''"] b
  show ?thesis
    by (simp add: directoryExists_def accessSync_def message_def)
qed

text \<open>
  Claim C9. \<^verbatim>\<open>create\<close> on a directory that is there succeeds, leaves the file system as
  it is and returns the resource. After any \<^verbatim>\<open>create\<close> that succeeded, the same
  \<^verbatim>\<open>create\<close> succeeds again with the same resource and changes nothing. A first
  \<^verbatim>\<open>create\<close> succeeds when nothing is at the path and no file is among its ancestors.
\<close>

theorem create_idempotent:
  "(fs (makePath join_paths root_dir (in_path r)) = Some Directory \<longrightarrow>
      create join_paths fs root_dir r =
        Inr (fs, Some \<lparr>res_id = in_path r, res_path = in_path r,
                       res_message = message (in_path r)\<rparr>)) \<and>
   (\<forall>fs' found. create join_paths fs root_dir r = Inr (fs', found) \<longrightarrow>
      create join_paths fs' root_dir r = Inr (fs', found) \<and>
      found = Some \<lparr>res_id = in_path r, res_path = in_path r,
                    res_message = message (in_path r)\<rparr> \<and>
      fs' (makePath join_paths root_dir (in_path r)) = Some Directory) \<and>
   (fs (makePath join_paths root_dir (in_path r)) = None \<and>
    \<not> list_ex (\<lambda>q. fs q = Some File) (prefixes (makePath join_paths root_dir (in_path r))) \<longrightarrow>
      (\<exists>fs'. create join_paths fs root_dir r =
         Inr (fs', Some \<lparr>res_id = in_path r, res_path = in_path r,
                         res_message = message (in_path r)\<rparr>)))"
proof -
  let ?p = "makePath join_paths root_dir (in_path r)"
  let ?res = "\<lparr>res_id = in_path r, res_path = in_path r, res_message = message (in_path r)\<rparr>"
  have there: "create join_paths g root_dir r = Inr (g, Some ?res)"
    if "g ?p = Some Directory" for g
    using that by (simp add: create_def ensureDir_there read_found Let_def)
  have made: "g' ?p = Some Directory \<and> found = Some ?res"
    if c: "create join_paths g root_dir r = Inr (g', found)" for g g' found
  proof -
    from c obtain h where h: "ensureDir g ?p = Inr h"
      by (cases "ensureDir g ?p") (auto simp: create_def Let_def)
    then have d: "h ?p = Some Directory" by (rule ensureDir_makes)
    with c h show ?thesis by (auto simp: create_def read_found Let_def)
  qed
  have first: "\<exists>fs'. create join_paths fs root_dir r = Inr (fs', Some ?res)"
    if "fs ?p = None" "\<not> list_ex (\<lambda>q. fs q = Some File) (prefixes ?p)"
  proof -
    let ?h = "\<lambda>q. if prefix q ?p then Some Directory else fs q"
    from that have "ensureDir fs ?p = Inr ?h" by (simp add: ensureDir_def)
    moreover have "?h ?p \<noteq> None" by simp
    ultimately show ?thesis by (simp add: create_def read_found Let_def)
  qed
  from there [of fs] made first show ?thesis
    using there by blast
qed


text \<open>Claim C9 on an empty file system: \<^verbatim>\<open>create\<close> twice.\<close>

theorem create_idempotent_witness:
  "\<exists>fs'. create sample_join Map.empty ''/site'' \<lparr>in_id = ''src'', in_path = ''src''\<rparr>
           = Inr (fs', Some \<lparr>res_id = ''src'', res_path = ''src'',
                               res_message = message ''src''\<rparr>) \<and>
         fs' [''/site'', ''src''] = Some Directory \<and>
         create sample_join fs' ''/site'' \<lparr>in_id = ''src'', in_path = ''src''\<rparr>
           = Inr (fs', Some \<lparr>res_id = ''src'', res_path = ''src'',
                               res_message = message ''src''\<rparr>)"
proof -
  let ?r = "\<lparr>in_id = ''src'', in_path = ''src''\<rparr>"
  have p: "makePath sample_join ''/site'' (in_path ?r) = [''/site'', ''src'']"
    by (simp add: makePath_def sample_join_def)
  have a: "Map.empty (makePath sample_join ''/site'' (in_path ?r)) = (None :: entry option)"
    by simp
  have b: "\<not> list_ex (\<lambda>q. Map.empty q = Some File)
               (prefixes (makePath sample_join ''/site'' (in_path ?r)))"
    by (simp add: list_ex_iff)
  note c = create_idempotent [of Map.empty sample_join "''/site''" ?r]
  note first = c [THEN conjunct2, THEN conjunct2, rule_format]
  note again = c [THEN conjunct2, THEN conjunct1, rule_format]
  from first [OF conjI [OF a b]] obtain fs' where
    1: "create sample_join Map.empty ''/site'' ?r
          = Inr (fs', Some \<lparr>res_id = in_path ?r, res_path = in_path ?r,
                              res_message = message (in_path ?r)\<rparr>)"
    by (rule exE)
  from again [OF 1] have
    2: "create sample_join fs' ''/site'' ?r
          = Inr (fs', Some \<lparr>res_id = in_path ?r, res_path = in_path ?r,
                              res_message = message (in_path ?r)\<rparr>)"
    and 3: "fs' (makePath sample_join ''/site'' (in_path ?r)) = Some Directory"
    by simp_all
  from 3 have 4: "fs' [''/site'', ''src''] = Some Directory" unfolding p .
  from 1 2 4 show ?thesis by (intro exI [of _ fs']) simp
qed

end
